theory Spec2Isabelle
  imports Complex_Main "HOL-Library.Log_Nat"
begin

section \<open>Offboard position example: data model\<close>

text \<open>
  The program under study is \<^verbatim>\<open>src/example/offboard_position/offboard_position.cpp\<close>:
  a \<^verbatim>\<open>main\<close> that connects to a vehicle, arms it, runs the offboard phase
  \<^verbatim>\<open>offb_ctrl_ned\<close>, lands, waits until the vehicle is on the ground and disarms.

  The SDK plugins (Action, Offboard, Telemetry) and the connection layer are external: the
  program only calls them. A run is modelled as the list of observable events it produces
  (gateway calls, console output, sleeps), threaded through every function as an explicit
  trace. The answers of the outside world are collected in a record \<open>world\<close>. Each command
  (\<^verbatim>\<open>add_any_connection\<close>, \<^verbatim>\<open>health\<close>, \<^verbatim>\<open>arm\<close>, \<^verbatim>\<open>start\<close>, \<^verbatim>\<open>land\<close>,
  \<^verbatim>\<open>disarm\<close>) is called at most once in a run, so one answer per command describes every
  behaviour of the collaborators; the two polled queries (\<^verbatim>\<open>is_connected\<close>,
  \<^verbatim>\<open>in_air\<close>) answer by the index of the poll.

  A \<^verbatim>\<open>float\<close> value is the rational number it denotes. Every \<^verbatim>\<open>float\<close> literal
  other than zero, every conversion to \<^verbatim>\<open>float\<close> and the result of every \<^verbatim>\<open>float\<close>
  operation is rounded by the function \<open>float_round\<close> of the world, the arithmetic of
  the platform; zero needs no rounding and negation is exact in every floating-point
  format. With \<open>float_round = binary32\<close> (round to nearest, ties to even, 24 bits) the
  program computes as compiled code does; with the identity it computes in exact
  arithmetic. The claims about the descent ramp are stated for both.
\<close>

subsection \<open>Result codes\<close>

text \<open>
  Modelled from the spec: the enumerations \<^verbatim>\<open>ConnectionResult\<close>, \<^verbatim>\<open>Action::Result\<close> and
  \<^verbatim>\<open>Offboard::Result\<close> are declared in SDK headers that are not part of the sources. Each
  is a closed set with a distinguished success value and one or more failure kinds; a
  failure kind is identified here by a number.
\<close>

datatype connection_result = ConnectionResult_SUCCESS | ConnectionResult_failure nat

datatype action_result = Action_SUCCESS | Action_failure nat

datatype offboard_result = Offboard_SUCCESS | Offboard_failure nat

subsection \<open>Setpoints and events\<close>

text \<open>
  Modelled from the spec: \<^verbatim>\<open>Offboard::PositionNEDYaw\<close> and \<^verbatim>\<open>Offboard::VelocityNEDYaw\<close>
  are SDK structs of four floats, brace-initialised in the source in the order north, east,
  down, yaw.
\<close>

record setpoint =
  north :: rat
  east :: rat
  down :: rat
  yaw :: rat

datatype event =
    Call_add_any_connection string
  | Call_is_connected
  | Call_health
  | Call_arm
  | Call_set_velocity_ned setpoint
  | Call_start
  | Call_set_position_ned setpoint
  | Call_land
  | Call_in_air
  | Call_disarm
  | Cout string
  | Cerr string
  | Sleep_ms nat

type_synonym trace = "event list"

subsection \<open>The outside world\<close>

text \<open>
  The answers of the collaborators, the library functions the program calls whose
  definitions are not in the sources (the three \<^verbatim>\<open>result_str\<close> functions of the SDK and
  \<^verbatim>\<open>std::to_string\<close> on a float), and the rounding of the \<^verbatim>\<open>float\<close> arithmetic.
\<close>

record world =
  add_any_connection :: "string \<Rightarrow> connection_result"
  is_connected :: "nat \<Rightarrow> bool"
  gyrometer_calibration_ok :: bool
  arm_result :: action_result
  start_result :: offboard_result
  land_result :: action_result
  disarm_result :: action_result
  in_air :: "nat \<Rightarrow> bool"
  connection_result_str :: "connection_result \<Rightarrow> string"
  action_result_str :: "action_result \<Rightarrow> string"
  offboard_result_str :: "offboard_result \<Rightarrow> string"
  float_to_string :: "rat \<Rightarrow> string"
  float_round :: "rat \<Rightarrow> rat"

subsection \<open>Outcomes\<close>

text \<open>
  A function of the program either returns a value, or terminates the whole process
  through \<^verbatim>\<open>exit\<close>, or is still inside a polling loop when the fuel of the model runs
  out. Every outcome carries the trace produced so far.
\<close>

datatype 'a outcome =
    Returns 'a trace
  | Exits int trace
  | Spins trace

fun trace_of :: "'a outcome \<Rightarrow> trace" where
  "trace_of (Returns a tr) = tr"
| "trace_of (Exits c tr) = tr"
| "trace_of (Spins tr) = tr"

text \<open>The status with which the process ends, if it ends.\<close>

fun exit_status :: "int outcome \<Rightarrow> int option" where
  "exit_status (Returns c tr) = Some c"
| "exit_status (Exits c tr) = Some c"
| "exit_status (Spins tr) = None"

text \<open>Sequencing: what follows a call runs only when the call returns.\<close>

fun and_then :: "'a outcome \<Rightarrow> ('a \<Rightarrow> trace \<Rightarrow> 'b outcome) \<Rightarrow> 'b outcome" where
  "and_then (Returns a tr) f = f a tr"
| "and_then (Exits c tr) f = Exits c tr"
| "and_then (Spins tr) f = Spins tr"

text \<open>A block of statements that only extend the trace, run in the order written.\<close>

definition seq :: "(trace \<Rightarrow> trace) list \<Rightarrow> trace \<Rightarrow> trace" where
  "seq stmts tr = fold (\<lambda>stmt t. stmt t) stmts tr"

definition call :: "event \<Rightarrow> trace \<Rightarrow> trace" where
  "call e tr = tr @ [e]"

section \<open>The program\<close>

subsection \<open>Constants and console helpers\<close>

definition EXIT_SUCCESS :: int where
  "EXIT_SUCCESS = 0"

definition EXIT_FAILURE :: int where
  "EXIT_FAILURE = 1"

definition ERROR_CONSOLE_TEXT :: string where
  "ERROR_CONSOLE_TEXT = CHR 0x1B # ''[31m''"

definition TELEMETRY_CONSOLE_TEXT :: string where
  "TELEMETRY_CONSOLE_TEXT = CHR 0x1B # ''[34m''"

definition NORMAL_CONSOLE_TEXT :: string where
  "NORMAL_CONSOLE_TEXT = CHR 0x1B # ''[0m''"

definition endl :: string where
  "endl = [CHR 0x0A]"

definition cout :: "string \<Rightarrow> trace \<Rightarrow> trace" where
  "cout s tr = tr @ [Cout s]"

definition cerr :: "string \<Rightarrow> trace \<Rightarrow> trace" where
  "cerr s tr = tr @ [Cerr s]"

definition seconds :: "nat \<Rightarrow> nat" where
  "seconds n = 1000 * n"

definition milliseconds :: "nat \<Rightarrow> nat" where
  "milliseconds n = n"

definition sleep_for :: "nat \<Rightarrow> trace \<Rightarrow> trace" where
  "sleep_for ms tr = tr @ [Sleep_ms ms]"

subsection \<open>The failure wrappers (lines 31 to 58)\<close>

definition action_error_exit :: "world \<Rightarrow> action_result \<Rightarrow> string \<Rightarrow> trace \<Rightarrow> unit outcome" where
  "action_error_exit w result message tr =
     (if result \<noteq> Action_SUCCESS
      then Exits EXIT_FAILURE
             (cerr (ERROR_CONSOLE_TEXT @ message @ action_result_str w result
                    @ NORMAL_CONSOLE_TEXT @ endl) tr)
      else Returns () tr)"

definition offboard_error_exit :: "world \<Rightarrow> offboard_result \<Rightarrow> string \<Rightarrow> trace \<Rightarrow> unit outcome" where
  "offboard_error_exit w result message tr =
     (if result \<noteq> Offboard_SUCCESS
      then Exits EXIT_FAILURE
             (cerr (ERROR_CONSOLE_TEXT @ message @ offboard_result_str w result
                    @ NORMAL_CONSOLE_TEXT @ endl) tr)
      else Returns () tr)"

definition connection_error_exit :: "world \<Rightarrow> connection_result \<Rightarrow> string \<Rightarrow> trace \<Rightarrow> unit outcome" where
  "connection_error_exit w result message tr =
     (if result \<noteq> ConnectionResult_SUCCESS
      then Exits EXIT_FAILURE
             (cerr (ERROR_CONSOLE_TEXT @ message @ connection_result_str w result
                    @ NORMAL_CONSOLE_TEXT @ endl) tr)
      else Returns () tr)"

definition offboard_log :: "string \<Rightarrow> string \<Rightarrow> trace \<Rightarrow> trace" where
  "offboard_log offb_mode msg tr = cout (''['' @ offb_mode @ ''] '' @ msg @ endl) tr"

subsection \<open>The offboard phase (lines 71 to 114)\<close>

definition set_velocity_ned :: "setpoint \<Rightarrow> trace \<Rightarrow> trace" where
  "set_velocity_ned sp tr = tr @ [Call_set_velocity_ned sp]"

definition set_position_ned :: "setpoint \<Rightarrow> trace \<Rightarrow> trace" where
  "set_position_ned sp tr = tr @ [Call_set_position_ned sp]"

text \<open>
  The interpolation loop of lines 102 to 106, from the counter value \<open>i\<close> on. The counter
  is an \<^verbatim>\<open>unsigned\<close> that stays below \<open>steps\<close>, so it never wraps. \<open>level\<close> is the
  value of \<^verbatim>\<open>-height + height/(float)steps*(float)i\<close>, which the loop computes twice:
  the setpoint adds \<^verbatim>\<open>0.15f\<close> to it, the log line prints it.
\<close>

function ramp_loop :: "world \<Rightarrow> string \<Rightarrow> rat \<Rightarrow> nat \<Rightarrow> nat \<Rightarrow> trace \<Rightarrow> trace" where
  "ramp_loop w offb_mode height steps i tr =
     (if i < steps
      then let level =
                 float_round w
                   (- height
                    + float_round w
                        (float_round w (height / float_round w (of_nat steps))
                         * float_round w (of_nat i)))
           in ramp_loop w offb_mode height steps (Suc i)
                (seq [set_position_ned
                        \<lparr>north = 0, east = 0,
                         down = float_round w (level + float_round w 0.15),
                         yaw = 0\<rparr>,
                      offboard_log offb_mode (float_to_string w level),
                      sleep_for (milliseconds 400)] tr)
      else tr)"
  by pat_completeness auto
termination
  by (relation "measure (\<lambda>(w, offb_mode, height, steps, i, tr). steps - i)") auto

declare ramp_loop.simps [simp del]

definition offb_ctrl_ned :: "world \<Rightarrow> trace \<Rightarrow> bool outcome" where
  "offb_ctrl_ned w tr =
     (let offb_mode = ''NED'';
          tr = set_velocity_ned \<lparr>north = 0, east = 0, down = 0, yaw = 0\<rparr> tr;
          offboard_result = start_result w;
          tr = call Call_start tr
      in and_then (offboard_error_exit w offboard_result ''Offboard start failed'' tr) (\<lambda>u tr.
      let tr = offboard_log offb_mode ''Offboard started'' tr;
          height = float_round w 0.75;
          tr = seq [offboard_log offb_mode ''Going to 0, 0, -0.0'',
                    set_position_ned \<lparr>north = 0, east = 0, down = - 0, yaw = 0\<rparr>,
                    sleep_for (seconds 1),
                    offboard_log offb_mode ''Going to 0, 0, -0.75'',
                    set_position_ned \<lparr>north = 0, east = 0, down = - height, yaw = 0\<rparr>,
                    sleep_for (seconds 4),
                    offboard_log offb_mode ''Going to 0.2, 0, -0.75'',
                    set_position_ned
                      \<lparr>north = float_round w 0.2, east = 0, down = - height, yaw = 0\<rparr>,
                    sleep_for (seconds 2),
                    offboard_log offb_mode ''Going to 0, 0, -0.75'',
                    set_position_ned \<lparr>north = 0, east = 0, down = - height, yaw = 0\<rparr>,
                    sleep_for (seconds 2)] tr;
          steps = 5;
          tr = ramp_loop w offb_mode height steps 0 tr;
          tr = seq [offboard_log offb_mode ''Going to 0, 0, 0'',
                    set_position_ned \<lparr>north = 0, east = 0, down = 0, yaw = 0\<rparr>] tr
      in Returns True tr))"

subsection \<open>The main function (lines 118 to 207)\<close>

definition usage :: "string \<Rightarrow> trace \<Rightarrow> trace" where
  "usage bin_name tr =
     cout (NORMAL_CONSOLE_TEXT @ ''Usage : '' @ bin_name @ '' <connection_url>'' @ endl
           @ ''Connection URL format should be :'' @ endl
           @ '' For TCP : tcp://[server_host][:server_port]'' @ endl
           @ '' For UDP : udp://[bind_host][:bind_port]'' @ endl
           @ '' For Serial : serial:///path/to/serial/dev[:baudrate]'' @ endl
           @ ''For example, to connect to the simulator use URL: udp://:14540'' @ endl) tr"

text \<open>
  The heartbeat loop of lines 150 to 153; \<open>k\<close> is the index of the next poll of
  \<^verbatim>\<open>is_connected\<close>. The loop has no bound in the source: the fuel bounds the number of
  polls the model follows, and a loop that is still waiting then is \<open>Spins\<close>.
\<close>

fun wait_heartbeat :: "nat \<Rightarrow> world \<Rightarrow> nat \<Rightarrow> trace \<Rightarrow> unit outcome" where
  "wait_heartbeat 0 w k tr = Spins tr"
| "wait_heartbeat (Suc fuel) w k tr =
     (if \<not> is_connected w k
      then wait_heartbeat fuel w (Suc k)
             (seq [call Call_is_connected,
                   cout (''Wait for system to connect via heartbeat'' @ endl),
                   sleep_for (seconds 1)] tr)
      else Returns () (call Call_is_connected tr))"

text \<open>
  The landing loop of lines 196 to 199; \<open>k\<close> is the index of the next poll of
  \<^verbatim>\<open>in_air\<close>. It has no bound in the source either.
\<close>

fun wait_grounded :: "nat \<Rightarrow> world \<Rightarrow> nat \<Rightarrow> trace \<Rightarrow> unit outcome" where
  "wait_grounded 0 w k tr = Spins tr"
| "wait_grounded (Suc fuel) w k tr =
     (if in_air w k
      then wait_grounded fuel w (Suc k)
             (seq [call Call_in_air,
                   cout (''Vehicle is landing...'' @ endl),
                   sleep_for (seconds 1)] tr)
      else Returns () (call Call_in_air tr))"

text \<open>
  \<^verbatim>\<open>main\<close>, with \<open>argc = length argv\<close>; \<open>argv\<close> is not empty when the program is
  started by a shell, and \<open>argv ! 0\<close> is read only in the usage branch. Constructing
  the SDK object and the plugin handles calls no gateway and leaves no event. The fuel
  bounds the number of polls followed in each of the two loops; \<^verbatim>\<open>return\<close> from
  \<^verbatim>\<open>main\<close> is \<open>Returns\<close>, a call of \<^verbatim>\<open>exit\<close> is \<open>Exits\<close>.
\<close>

definition main :: "nat \<Rightarrow> string list \<Rightarrow> world \<Rightarrow> int outcome" where
  "main fuel argv w =
     (if length argv = 2
      then
        let connection_url = argv ! 1;
            connection_result = add_any_connection w connection_url;
            tr = call (Call_add_any_connection connection_url) []
        in
        if connection_result \<noteq> ConnectionResult_SUCCESS
        then Returns 1
               (cout (ERROR_CONSOLE_TEXT @ ''Connection failed: ''
                      @ connection_result_str w connection_result
                      @ NORMAL_CONSOLE_TEXT @ endl) tr)
        else
        and_then (wait_heartbeat fuel w 0 tr) (\<lambda>u tr.
        let tr = sleep_for (seconds 1) tr;
            health_gyrometer_calibration_ok = gyrometer_calibration_ok w;
            tr = call Call_health tr;
            tr = (if health_gyrometer_calibration_ok
                  then seq [cout (''Gyro is calibrated'' @ endl), sleep_for (seconds 1)] tr
                  else tr);
            arm_result = arm_result w;
            tr = call Call_arm tr
        in
        and_then (action_error_exit w arm_result ''Arming failed'' tr) (\<lambda>u tr.
        let tr = cout (''Armed'' @ endl) tr in
        and_then (offb_ctrl_ned w tr) (\<lambda>ret tr.
        if ret = False
        then Returns EXIT_FAILURE tr
        else
        let land_result = land_result w;
            tr = call Call_land tr
        in
        and_then (action_error_exit w land_result ''Landing failed'' tr) (\<lambda>u tr.
        and_then (wait_grounded fuel w 0 tr) (\<lambda>u tr.
        let tr = seq [cout (''Landed!'' @ endl),
                      call Call_disarm,
                      sleep_for (seconds 3),
                      cout (''Finished...'' @ endl)] tr
        in Returns EXIT_SUCCESS tr)))))
      else Returns 1 (usage (argv ! 0) []))"

section \<open>Observations on traces\<close>

text \<open>The position setpoints delivered to the offboard gateway, in the order sent.\<close>

fun position_setpoints :: "trace \<Rightarrow> setpoint list" where
  "position_setpoints [] = []"
| "position_setpoints (Call_set_position_ned sp # es) = sp # position_setpoints es"
| "position_setpoints (e # es) = position_setpoints es"

text \<open>
  The gateway calls ranked by the place of their phase in \<^verbatim>\<open>main\<close>: arming, the
  priming setpoint, the start of offboard control, the position setpoints, landing, the
  in-air polls, disarming. Connection set-up, the health query, console output and sleeps
  have rank 0.
\<close>

fun call_rank :: "event \<Rightarrow> nat" where
  "call_rank Call_arm = 1"
| "call_rank (Call_set_velocity_ned sp) = 2"
| "call_rank Call_start = 3"
| "call_rank (Call_set_position_ned sp) = 4"
| "call_rank Call_land = 5"
| "call_rank Call_in_air = 6"
| "call_rank Call_disarm = 7"
| "call_rank e = 0"

subsection \<open>Binary32 rounding\<close>

text \<open>
  Round to nearest, ties to even, with a significand of 24 bits. The exponent range is
  not bounded: the values of the ramp are far from overflow and from the subnormal
  numbers. \<open>exponent_of x\<close> is the \<open>e\<close> with \<open>2 ^ e \<le> \<bar>x\<bar> < 2 ^ (e + 1)\<close>.
\<close>

definition pow2 :: "int \<Rightarrow> rat" where
  "pow2 e = (if 0 \<le> e then 2 ^ nat e else 1 / 2 ^ nat (- e))"

definition exponent_of :: "rat \<Rightarrow> int" where
  "exponent_of x =
     (let (p, q) = quotient_of \<bar>x\<bar>; e = bitlen p - bitlen q
      in if pow2 e \<le> \<bar>x\<bar> then e else e - 1)"

definition round_half_even :: "rat \<Rightarrow> int" where
  "round_half_even q =
     (let f = \<lfloor>q\<rfloor>; r = q - of_int f
      in if r < 1 / 2 then f else if 1 / 2 < r then f + 1 else if even f then f else f + 1)"

definition binary32 :: "rat \<Rightarrow> rat" where
  "binary32 x =
     (if x = 0 then 0
      else let ulp = pow2 (exponent_of x - 23)
           in sgn x * of_int (round_half_even (\<bar>x\<bar> / ulp)) * ulp)"

text \<open>
  The down component of line 103,
  \<^verbatim>\<open>-height + height/(float)steps*(float)i + 0.15f\<close>, with the two conversions, the
  literal and the result of every operation rounded to binary32: what the loop sends at
  step \<open>i\<close> when the arithmetic of the world is binary32.
\<close>

definition ramp_down_binary32 :: "rat \<Rightarrow> nat \<Rightarrow> nat \<Rightarrow> rat" where
  "ramp_down_binary32 height steps i =
     binary32
       (binary32 (- height
                  + binary32 (binary32 (height / binary32 (of_nat steps))
                              * binary32 (of_nat i)))
        + binary32 0.15)"

subsection \<open>The pieces of a run\<close>

text \<open>
  The events of each part of a run, written out. They are not part of the program: the
  lemmas below prove that the program produces exactly these.
\<close>

definition ramp_level :: "world \<Rightarrow> rat \<Rightarrow> nat \<Rightarrow> nat \<Rightarrow> rat" where
  "ramp_level w height steps i =
     float_round w
       (- height
        + float_round w
            (float_round w (height / float_round w (of_nat steps))
             * float_round w (of_nat i)))"

definition ramp_down :: "world \<Rightarrow> rat \<Rightarrow> nat \<Rightarrow> nat \<Rightarrow> rat" where
  "ramp_down w height steps i =
     float_round w (ramp_level w height steps i + float_round w 0.15)"

definition ramp_step :: "world \<Rightarrow> string \<Rightarrow> rat \<Rightarrow> nat \<Rightarrow> nat \<Rightarrow> trace" where
  "ramp_step w offb_mode height steps i =
     [Call_set_position_ned
        \<lparr>north = 0, east = 0, down = ramp_down w height steps i, yaw = 0\<rparr>,
      Cout (''['' @ offb_mode @ ''] ''
            @ float_to_string w (ramp_level w height steps i) @ endl),
      Sleep_ms 400]"

definition heartbeat_wait :: "nat \<Rightarrow> trace" where
  "heartbeat_wait n =
     concat (replicate n [Call_is_connected,
                          Cout (''Wait for system to connect via heartbeat'' @ endl),
                          Sleep_ms 1000])"

definition landing_wait :: "nat \<Rightarrow> trace" where
  "landing_wait n =
     concat (replicate n [Call_in_air, Cout (''Vehicle is landing...'' @ endl), Sleep_ms 1000])"

definition gyro_events :: "world \<Rightarrow> trace" where
  "gyro_events w =
     (if gyrometer_calibration_ok w
      then [Cout (''Gyro is calibrated'' @ endl), Sleep_ms 1000] else [])"

definition boot_trace :: "world \<Rightarrow> string \<Rightarrow> nat \<Rightarrow> trace" where
  "boot_trace w url n =
     Call_add_any_connection url # heartbeat_wait n
     @ [Call_is_connected, Sleep_ms 1000, Call_health] @ gyro_events w"

definition priming :: trace where
  "priming = [Cout (''Armed'' @ endl),
              Call_set_velocity_ned \<lparr>north = 0, east = 0, down = 0, yaw = 0\<rparr>,
              Call_start]"

definition offboard_script :: "world \<Rightarrow> trace" where
  "offboard_script w =
     [Cout (''[NED] Offboard started'' @ endl),
      Cout (''[NED] Going to 0, 0, -0.0'' @ endl),
      Call_set_position_ned \<lparr>north = 0, east = 0, down = 0, yaw = 0\<rparr>,
      Sleep_ms 1000,
      Cout (''[NED] Going to 0, 0, -0.75'' @ endl),
      Call_set_position_ned
        \<lparr>north = 0, east = 0, down = - float_round w 0.75, yaw = 0\<rparr>,
      Sleep_ms 4000,
      Cout (''[NED] Going to 0.2, 0, -0.75'' @ endl),
      Call_set_position_ned
        \<lparr>north = float_round w 0.2, east = 0, down = - float_round w 0.75, yaw = 0\<rparr>,
      Sleep_ms 2000,
      Cout (''[NED] Going to 0, 0, -0.75'' @ endl),
      Call_set_position_ned
        \<lparr>north = 0, east = 0, down = - float_round w 0.75, yaw = 0\<rparr>,
      Sleep_ms 2000]
     @ concat (map (ramp_step w ''NED'' (float_round w 0.75) 5) [0..<5])
     @ [Cout (''[NED] Going to 0, 0, 0'' @ endl),
        Call_set_position_ned \<lparr>north = 0, east = 0, down = 0, yaw = 0\<rparr>]"

definition closing :: trace where
  "closing = [Cout (''Landed!'' @ endl), Call_disarm, Sleep_ms 3000,
              Cout (''Finished...'' @ endl)]"

definition arm_failed_msg :: "world \<Rightarrow> event" where
  "arm_failed_msg w =
     Cerr (ERROR_CONSOLE_TEXT @ ''Arming failed''
           @ action_result_str w (arm_result w) @ NORMAL_CONSOLE_TEXT @ endl)"

definition start_failed_msg :: "world \<Rightarrow> event" where
  "start_failed_msg w =
     Cerr (ERROR_CONSOLE_TEXT @ ''Offboard start failed''
           @ offboard_result_str w (start_result w) @ NORMAL_CONSOLE_TEXT @ endl)"

definition land_failed_msg :: "world \<Rightarrow> event" where
  "land_failed_msg w =
     Cerr (ERROR_CONSOLE_TEXT @ ''Landing failed''
           @ action_result_str w (land_result w) @ NORMAL_CONSOLE_TEXT @ endl)"

text \<open>What \<^verbatim>\<open>main\<close> does from the call of \<^verbatim>\<open>arm\<close> on, as a cascade of the checks.\<close>

definition run_from_arm :: "nat \<Rightarrow> world \<Rightarrow> trace \<Rightarrow> int outcome" where
  "run_from_arm fuel w tr =
     (if arm_result w \<noteq> Action_SUCCESS
      then Exits EXIT_FAILURE (tr @ [Call_arm, arm_failed_msg w])
      else if start_result w \<noteq> Offboard_SUCCESS
      then Exits EXIT_FAILURE (tr @ Call_arm # priming @ [start_failed_msg w])
      else if land_result w \<noteq> Action_SUCCESS
      then Exits EXIT_FAILURE
             (tr @ Call_arm # priming @ offboard_script w @ [Call_land, land_failed_msg w])
      else and_then
             (wait_grounded fuel w 0 (tr @ Call_arm # priming @ offboard_script w @ [Call_land]))
             (\<lambda>u tr. Returns EXIT_SUCCESS (tr @ closing)))"

subsection \<open>Concrete inputs\<close>

text \<open>
  A command line with one connection argument, and a vehicle that answers the second
  heartbeat poll, accepts every command and is on the ground at the third in-air poll,
  on a platform with binary32 arithmetic.
\<close>

definition nominal_args :: "string list" where
  "nominal_args = [''offboard_position'', ''udp://:14540'']"

definition nominal_world :: world where
  "nominal_world =
     \<lparr>add_any_connection = (\<lambda>url. ConnectionResult_SUCCESS),
      is_connected = (\<lambda>k. 1 \<le> k),
      gyrometer_calibration_ok = True,
      arm_result = Action_SUCCESS,
      start_result = Offboard_SUCCESS,
      land_result = Action_SUCCESS,
      disarm_result = Action_SUCCESS,
      in_air = (\<lambda>k. k < 2),
      connection_result_str = (\<lambda>r. ''Connection result''),
      action_result_str = (\<lambda>r. ''Action result''),
      offboard_result_str = (\<lambda>r. ''Offboard result''),
      float_to_string = (\<lambda>x. ''float''),
      float_round = binary32\<rparr>"

definition arm_refusing_world :: world where
  "arm_refusing_world = nominal_world\<lparr>arm_result := Action_failure 1\<rparr>"

definition start_refusing_world :: world where
  "start_refusing_world = nominal_world\<lparr>start_result := Offboard_failure 1\<rparr>"

definition land_refusing_world :: world where
  "land_refusing_world = nominal_world\<lparr>land_result := Action_failure 1\<rparr>"

definition disarm_refusing_world :: world where
  "disarm_refusing_world = nominal_world\<lparr>disarm_result := Action_failure 1\<rparr>"

text \<open>Command lines with no connection argument and with two.\<close>

definition no_args :: "string list" where
  "no_args = [''offboard_position'']"

definition two_args :: "string list" where
  "two_args = [''offboard_position'', ''udp://:14540'', ''udp://:14541'']"

section \<open>Closed forms of the program\<close>

lemma seq_Nil [simp]: "seq [] tr = tr"
  by (simp add: seq_def)

lemma seq_Cons [simp]: "seq (stmt # stmts) tr = seq stmts (stmt tr)"
  by (simp add: seq_def)

lemmas stmt_defs = call_def cout_def cerr_def sleep_for_def set_velocity_ned_def
  set_position_ned_def offboard_log_def seconds_def milliseconds_def

subsection \<open>The interpolation loop\<close>

lemma ramp_body:
  "seq [set_position_ned
          \<lparr>north = 0, east = 0,
           down = float_round w (ramp_level w h steps i + float_round w 0.15), yaw = 0\<rparr>,
        offboard_log m (float_to_string w (ramp_level w h steps i)),
        sleep_for (milliseconds 400)] tr = tr @ ramp_step w m h steps i"
  by (simp add: stmt_defs ramp_step_def ramp_down_def)

lemma ramp_loop_trace:
  "ramp_loop w m h steps i tr = tr @ concat (map (ramp_step w m h steps) [i..<steps])"
proof (induction w m h steps i tr rule: ramp_loop.induct)
  case (1 w m h steps i tr)
  show ?case
  proof (cases "i < steps")
    case True
    then have "[i..<steps] = i # [Suc i..<steps]"
      by (simp add: upt_conv_Cons)
    moreover have "ramp_loop w m h steps i tr =
        ramp_loop w m h steps (Suc i) (tr @ ramp_step w m h steps i)"
      using True
      by (subst ramp_loop.simps)
        (simp only: Let_def ramp_level_def [symmetric] ramp_body if_True)
    moreover have "ramp_loop w m h steps (Suc i) (tr @ ramp_step w m h steps i) =
        (tr @ ramp_step w m h steps i) @ concat (map (ramp_step w m h steps) [Suc i..<steps])"
      using "1.IH" [OF True refl]
      by (simp only: Let_def ramp_level_def [symmetric] ramp_body)
    ultimately show ?thesis
      by simp
  next
    case False
    then show ?thesis
      by (subst ramp_loop.simps) simp
  qed
qed

lemma position_setpoints_append:
  "position_setpoints (xs @ ys) = position_setpoints xs @ position_setpoints ys"
  by (induction xs rule: position_setpoints.induct) simp_all

lemma position_setpoints_ramp:
  "position_setpoints (concat (map (ramp_step w m h steps) is)) =
     map (\<lambda>i. \<lparr>north = 0, east = 0, down = ramp_down w h steps i, yaw = 0\<rparr>) is"
  by (induction "is") (simp_all add: ramp_step_def)

lemma position_setpoints_ramp_loop:
  "position_setpoints (ramp_loop w m h steps 0 tr) =
     position_setpoints tr
     @ map (\<lambda>i. \<lparr>north = 0, east = 0, down = ramp_down w h steps i, yaw = 0\<rparr>) [0..<steps]"
  by (simp add: ramp_loop_trace position_setpoints_append position_setpoints_ramp)

text \<open>The down component of a step under the two arithmetics.\<close>

lemma ramp_down_at_exact:
  "ramp_down (w\<lparr>float_round := \<lambda>x. x\<rparr>) h steps i
     = - h + h / of_nat steps * of_nat i + 0.15"
  by (simp add: ramp_down_def ramp_level_def)

lemma ramp_down_at_binary32:
  "ramp_down (w\<lparr>float_round := binary32\<rparr>) h steps i = ramp_down_binary32 h steps i"
  by (simp add: ramp_down_def ramp_level_def ramp_down_binary32_def)

lemma binary32_literals:
  "binary32 0.75 = 0.75" "binary32 0.2 = 13421773 / 67108864"
  by code_simp+

lemma upt_5: "[0..<5] = [0, 1, 2, 3, 4]"
  by (simp add: upt_rec)

text \<open>The ramp of \<^verbatim>\<open>offb_ctrl_ned\<close> under binary32 rounding, evaluated.\<close>

lemma ramp_down_binary32_values:
  "map (ramp_down_binary32 (binary32 0.75) 5) [0..<5] =
     [- (5033165 / 8388608), - (15099495 / 33554432), - (10066329 / 33554432),
      - (1258291 / 8388608), 1 / 33554432]"
  by code_simp

subsection \<open>The offboard phase\<close>

lemma offb_ctrl_ned_closed:
  "offb_ctrl_ned w tr =
     (if start_result w \<noteq> Offboard_SUCCESS
      then Exits EXIT_FAILURE
             (tr @ [Call_set_velocity_ned \<lparr>north = 0, east = 0, down = 0, yaw = 0\<rparr>,
                    Call_start, start_failed_msg w])
      else Returns True
             (tr @ [Call_set_velocity_ned \<lparr>north = 0, east = 0, down = 0, yaw = 0\<rparr>,
                    Call_start] @ offboard_script w))"
  by (simp add: offb_ctrl_ned_def offboard_error_exit_def Let_def stmt_defs
      ramp_loop_trace offboard_script_def start_failed_msg_def)

subsection \<open>The ramp of the offboard phase, evaluated\<close>

lemma ramp_loop_downs:
  "map down (position_setpoints (ramp_loop w m h steps 0 [])) = map (ramp_down w h steps) [0..<steps]"
  by (simp add: position_setpoints_ramp_loop o_def)

lemma ramp_loop_downs_exact:
  "map down (position_setpoints (ramp_loop (w\<lparr>float_round := \<lambda>x. x\<rparr>) m h steps 0 [])) =
     map (\<lambda>i. - h + h / of_nat steps * of_nat i + 0.15) [0..<steps]"
  unfolding ramp_loop_downs ramp_down_at_exact ..

lemma ramp_loop_downs_binary32:
  "map down (position_setpoints (ramp_loop (w\<lparr>float_round := binary32\<rparr>) m h steps 0 [])) =
     map (ramp_down_binary32 h steps) [0..<steps]"
  unfolding ramp_loop_downs ramp_down_at_binary32 ..

lemma ramp_binary32_downs:
  "map down (position_setpoints (ramp_loop (w\<lparr>float_round := binary32\<rparr>) m 0.75 5 0 [])) =
     [- (5033165 / 8388608), - (15099495 / 33554432), - (10066329 / 33554432),
      - (1258291 / 8388608), 1 / 33554432]"
  unfolding ramp_loop_downs_binary32
  by (rule ramp_down_binary32_values [unfolded binary32_literals(1)])

lemma ramp_exact_downs:
  "map down (position_setpoints (ramp_loop (w\<lparr>float_round := \<lambda>x. x\<rparr>) m 0.75 5 0 [])) =
     [- 0.6, - 0.45, - 0.3, - 0.15, 0]"
  unfolding ramp_loop_downs_exact by (simp add: upt_5)

lemma offboard_positions:
  "position_setpoints (trace_of (offb_ctrl_ned (w\<lparr>start_result := Offboard_SUCCESS\<rparr>) [])) =
     [\<lparr>north = 0, east = 0, down = 0, yaw = 0\<rparr>,
      \<lparr>north = 0, east = 0, down = - float_round w 0.75, yaw = 0\<rparr>,
      \<lparr>north = float_round w 0.2, east = 0, down = - float_round w 0.75, yaw = 0\<rparr>,
      \<lparr>north = 0, east = 0, down = - float_round w 0.75, yaw = 0\<rparr>]
     @ position_setpoints (ramp_loop w ''NED'' (float_round w 0.75) 5 0 [])
     @ [\<lparr>north = 0, east = 0, down = 0, yaw = 0\<rparr>]"
proof -
  have "ramp_step (w\<lparr>start_result := Offboard_SUCCESS\<rparr>) = ramp_step w"
    by (intro ext) (simp add: ramp_step_def ramp_down_def ramp_level_def)
  then show ?thesis
    by (simp add: offb_ctrl_ned_closed offboard_script_def position_setpoints_append
        ramp_loop_trace)
qed

lemma offboard_positions_binary32:
  "position_setpoints
     (trace_of (offb_ctrl_ned
                  (w\<lparr>float_round := binary32, start_result := Offboard_SUCCESS\<rparr>) [])) =
     [\<lparr>north = 0, east = 0, down = 0, yaw = 0\<rparr>,
      \<lparr>north = 0, east = 0, down = - 0.75, yaw = 0\<rparr>,
      \<lparr>north = 13421773 / 67108864, east = 0, down = - 0.75, yaw = 0\<rparr>,
      \<lparr>north = 0, east = 0, down = - 0.75, yaw = 0\<rparr>]
     @ position_setpoints (ramp_loop (w\<lparr>float_round := binary32\<rparr>) ''NED'' 0.75 5 0 [])
     @ [\<lparr>north = 0, east = 0, down = 0, yaw = 0\<rparr>]"
proof -
  have round: "float_round (w\<lparr>float_round := binary32\<rparr>) = binary32"
    by simp
  show ?thesis
    using offboard_positions [of "w\<lparr>float_round := binary32\<rparr>"]
    unfolding round binary32_literals .
qed

lemma offboard_positions_exact:
  "position_setpoints
     (trace_of (offb_ctrl_ned
                  (w\<lparr>float_round := \<lambda>x. x, start_result := Offboard_SUCCESS\<rparr>) [])) =
     [\<lparr>north = 0, east = 0, down = 0, yaw = 0\<rparr>,
      \<lparr>north = 0, east = 0, down = - 0.75, yaw = 0\<rparr>,
      \<lparr>north = 0.2, east = 0, down = - 0.75, yaw = 0\<rparr>,
      \<lparr>north = 0, east = 0, down = - 0.75, yaw = 0\<rparr>]
     @ position_setpoints (ramp_loop (w\<lparr>float_round := \<lambda>x. x\<rparr>) ''NED'' 0.75 5 0 [])
     @ [\<lparr>north = 0, east = 0, down = 0, yaw = 0\<rparr>]"
proof -
  have round: "float_round (w\<lparr>float_round := \<lambda>x. x\<rparr>) = (\<lambda>x. x)"
    by simp
  show ?thesis
    using offboard_positions [of "w\<lparr>float_round := \<lambda>x. x\<rparr>"]
    unfolding round .
qed

lemma not_all_below: "y \<in> set (map f xs) \<Longrightarrow> \<not> y < c \<Longrightarrow> \<not> (\<forall>x \<in> set xs. f x < c)"
  by auto

subsection \<open>The two polling loops\<close>

lemma wait_heartbeat_shape:
  "(\<exists>n. wait_heartbeat fuel w k tr = Returns () (tr @ heartbeat_wait n @ [Call_is_connected]))
   \<or> wait_heartbeat fuel w k tr = Spins (tr @ heartbeat_wait fuel)"
proof (induction fuel arbitrary: k tr)
  case 0
  show ?case by (simp add: heartbeat_wait_def)
next
  case (Suc fuel)
  show ?case
  proof (cases "is_connected w k")
    case True
    then have "wait_heartbeat (Suc fuel) w k tr =
        Returns () (tr @ heartbeat_wait 0 @ [Call_is_connected])"
      by (simp add: heartbeat_wait_def stmt_defs)
    then show ?thesis by blast
  next
    case False
    let ?tr = "tr @ heartbeat_wait 1"
    from False have step: "wait_heartbeat (Suc fuel) w k tr = wait_heartbeat fuel w (Suc k) ?tr"
      by (simp add: heartbeat_wait_def stmt_defs)
    have add: "?tr @ heartbeat_wait n = tr @ heartbeat_wait (Suc n)" for n
      by (simp add: heartbeat_wait_def)
    from Suc.IH [of "Suc k" ?tr] show ?thesis
      unfolding step append_assoc [symmetric] add
      by (simp only: append_assoc) blast
  qed
qed

lemma wait_heartbeat_returns:
  "k' < fuel \<Longrightarrow> is_connected w (k + k')
   \<Longrightarrow> \<exists>n. wait_heartbeat fuel w k tr = Returns () (tr @ heartbeat_wait n @ [Call_is_connected])"
proof (induction fuel arbitrary: k k' tr)
  case 0
  then show ?case by simp
next
  case (Suc fuel)
  show ?case
  proof (cases "is_connected w k")
    case True
    then have "wait_heartbeat (Suc fuel) w k tr =
        Returns () (tr @ heartbeat_wait 0 @ [Call_is_connected])"
      by (simp add: heartbeat_wait_def stmt_defs)
    then show ?thesis by blast
  next
    case False
    with Suc.prems obtain j where j: "k' = Suc j" by (cases k') auto
    with Suc.prems have "j < fuel" "is_connected w (Suc k + j)" by simp_all
    from Suc.IH [OF this, of "tr @ heartbeat_wait 1"]
    obtain n where "wait_heartbeat fuel w (Suc k) (tr @ heartbeat_wait 1)
      = Returns () ((tr @ heartbeat_wait 1) @ heartbeat_wait n @ [Call_is_connected])" by blast
    with False have "wait_heartbeat (Suc fuel) w k tr
      = Returns () (tr @ heartbeat_wait (Suc n) @ [Call_is_connected])"
      by (simp add: heartbeat_wait_def stmt_defs)
    then show ?thesis by blast
  qed
qed

lemma wait_grounded_shape:
  "(\<exists>n. wait_grounded fuel w k tr = Returns () (tr @ landing_wait n @ [Call_in_air]))
   \<or> wait_grounded fuel w k tr = Spins (tr @ landing_wait fuel)"
proof (induction fuel arbitrary: k tr)
  case 0
  show ?case by (simp add: landing_wait_def)
next
  case (Suc fuel)
  show ?case
  proof (cases "in_air w k")
    case False
    then have "wait_grounded (Suc fuel) w k tr = Returns () (tr @ landing_wait 0 @ [Call_in_air])"
      by (simp add: landing_wait_def stmt_defs)
    then show ?thesis by blast
  next
    case True
    let ?tr = "tr @ landing_wait 1"
    from True have step: "wait_grounded (Suc fuel) w k tr = wait_grounded fuel w (Suc k) ?tr"
      by (simp add: landing_wait_def stmt_defs)
    have add: "?tr @ landing_wait n = tr @ landing_wait (Suc n)" for n
      by (simp add: landing_wait_def)
    from Suc.IH [of "Suc k" ?tr] show ?thesis
      unfolding step append_assoc [symmetric] add
      by (simp only: append_assoc) blast
  qed
qed

lemma wait_grounded_returns:
  "\<lbrakk>\<And>j. j < n \<Longrightarrow> in_air w (k + j); \<not> in_air w (k + n); n < fuel\<rbrakk>
   \<Longrightarrow> wait_grounded fuel w k tr = Returns () (tr @ landing_wait n @ [Call_in_air])"
proof (induction n arbitrary: fuel k tr)
  case 0
  then obtain f where "fuel = Suc f" by (cases fuel) auto
  with 0 show ?case by (simp add: landing_wait_def stmt_defs)
next
  case (Suc n)
  from Suc.prems(3) obtain f where f: "fuel = Suc f" "n < f" by (cases fuel) auto
  from Suc.prems(1) [of 0] have air: "in_air w k" by simp
  have "wait_grounded f w (Suc k) (tr @ landing_wait 1)
        = Returns () ((tr @ landing_wait 1) @ landing_wait n @ [Call_in_air])"
  proof (rule Suc.IH)
    fix j assume "j < n"
    then show "in_air w (Suc k + j)" using Suc.prems(1) [of "Suc j"] by simp
  next
    show "\<not> in_air w (Suc k + n)" using Suc.prems(2) by simp
  next
    show "n < f" by (rule f(2))
  qed
  with air f(1) show ?case
    by (simp add: landing_wait_def stmt_defs)
qed

subsection \<open>The main function\<close>

lemma main_closed:
  "main fuel argv w =
     (if length argv = 2
      then if add_any_connection w (argv ! 1) \<noteq> ConnectionResult_SUCCESS
           then Returns 1
                  [Call_add_any_connection (argv ! 1),
                   Cout (ERROR_CONSOLE_TEXT @ ''Connection failed: ''
                         @ connection_result_str w (add_any_connection w (argv ! 1))
                         @ NORMAL_CONSOLE_TEXT @ endl)]
           else and_then (wait_heartbeat fuel w 0 [Call_add_any_connection (argv ! 1)])
                  (\<lambda>u tr. run_from_arm fuel w
                     (tr @ [Sleep_ms 1000, Call_health] @ gyro_events w))
      else Returns 1 (usage (argv ! 0) []))"
proof -
  have cont: "(\<lambda>u tr. f u tr) = (\<lambda>u tr. g u tr)" if "\<And>u tr. f u tr = g u tr"
    for f g :: "unit \<Rightarrow> trace \<Rightarrow> int outcome"
    using that by simp
  show ?thesis
    unfolding main_def Let_def
    apply (simp only: if_not_P if_P split: if_splits)
    apply (intro conjI impI)
      apply (simp_all add: stmt_defs)
    apply (rule arg_cong [where f = "and_then _"])
    apply (intro ext)
    apply (simp add: run_from_arm_def action_error_exit_def offb_ctrl_ned_closed
        gyro_events_def priming_def closing_def arm_failed_msg_def land_failed_msg_def stmt_defs)
    done
qed

subsection \<open>Ranks of the pieces\<close>

lemma heartbeat_wait_rank: "list_all (\<lambda>e. call_rank e = 0) (heartbeat_wait n)"
  by (induction n) (simp_all add: heartbeat_wait_def)

lemma landing_wait_rank: "list_all (\<lambda>e. call_rank e = 0 \<or> call_rank e = 6) (landing_wait n)"
  by (induction n) (simp_all add: landing_wait_def)

lemma boot_trace_rank: "list_all (\<lambda>e. call_rank e = 0) (boot_trace w url n)"
  by (simp add: boot_trace_def gyro_events_def heartbeat_wait_rank)

lemma ramp_rank:
  "list_all (\<lambda>e. call_rank e = 0 \<or> call_rank e = 4) (concat (map (ramp_step w m h steps) is))"
  by (induction "is") (simp_all add: ramp_step_def)

lemma offboard_script_rank:
  "list_all (\<lambda>e. call_rank e = 0 \<or> call_rank e = 4) (offboard_script w)"
  by (simp add: offboard_script_def ramp_rank)

lemma list_all_weaken: "list_all P xs \<Longrightarrow> (\<And>x. P x \<Longrightarrow> Q x) \<Longrightarrow> list_all Q xs"
  by (simp add: list_all_iff)

lemma boot_trace_rankD: "e \<in> set (boot_trace w url n) \<Longrightarrow> call_rank e = 0"
  using boot_trace_rank [of w url n] by (simp add: list_all_iff)

lemma heartbeat_wait_rankD: "e \<in> set (heartbeat_wait n) \<Longrightarrow> call_rank e = 0"
  using heartbeat_wait_rank [of n] by (simp add: list_all_iff)

lemma offboard_script_rankD:
  "e \<in> set (offboard_script w) \<Longrightarrow> call_rank e = 0 \<or> call_rank e = 4"
  using offboard_script_rank [of w] by (simp add: list_all_iff)

lemma landing_wait_rankD:
  "e \<in> set (landing_wait n) \<Longrightarrow> call_rank e = 0 \<or> call_rank e = 6"
  using landing_wait_rank [of n] by (simp add: list_all_iff)

lemmas rankD = boot_trace_rankD heartbeat_wait_rankD offboard_script_rankD landing_wait_rankD

lemma notin_of_rank_below:
  "list_all (\<lambda>e. call_rank e < r) tr \<Longrightarrow> r \<le> call_rank e \<Longrightarrow> e \<notin> set tr"
  by (auto simp: list_all_iff)

subsection \<open>Every run, by cases\<close>

lemma main_cases [case_names usage refused waiting booted]:
  obtains
    "length argv \<noteq> 2" "main fuel argv w = Returns 1 (usage (argv ! 0) [])"
  | "length argv = 2"
    "add_any_connection w (argv ! 1) \<noteq> ConnectionResult_SUCCESS"
    "main fuel argv w = Returns 1
       [Call_add_any_connection (argv ! 1),
        Cout (ERROR_CONSOLE_TEXT @ ''Connection failed: ''
              @ connection_result_str w (add_any_connection w (argv ! 1))
              @ NORMAL_CONSOLE_TEXT @ endl)]"
  | "length argv = 2"
    "add_any_connection w (argv ! 1) = ConnectionResult_SUCCESS"
    "main fuel argv w = Spins (Call_add_any_connection (argv ! 1) # heartbeat_wait fuel)"
  | n where "length argv = 2"
    "add_any_connection w (argv ! 1) = ConnectionResult_SUCCESS"
    "main fuel argv w = run_from_arm fuel w (boot_trace w (argv ! 1) n)"
proof (cases "length argv = 2")
  case False
  then show ?thesis using that(1) by (simp add: main_closed)
next
  case len: True
  show ?thesis
  proof (cases "add_any_connection w (argv ! 1) = ConnectionResult_SUCCESS")
    case False
    with len show ?thesis using that(2) by (simp add: main_closed)
  next
    case ok: True
    from wait_heartbeat_shape [of fuel w 0 "[Call_add_any_connection (argv ! 1)]"]
    show ?thesis
    proof (elim disjE exE)
      fix n
      assume "wait_heartbeat fuel w 0 [Call_add_any_connection (argv ! 1)] =
        Returns () ([Call_add_any_connection (argv ! 1)] @ heartbeat_wait n @ [Call_is_connected])"
      with len ok have "main fuel argv w = run_from_arm fuel w (boot_trace w (argv ! 1) n)"
        by (simp add: main_closed boot_trace_def)
      with len ok show ?thesis using that(4) by blast
    next
      assume "wait_heartbeat fuel w 0 [Call_add_any_connection (argv ! 1)] =
        Spins ([Call_add_any_connection (argv ! 1)] @ heartbeat_wait fuel)"
      with len ok have "main fuel argv w = Spins (Call_add_any_connection (argv ! 1) # heartbeat_wait fuel)"
        by (simp add: main_closed)
      with len ok show ?thesis using that(3) by blast
    qed
  qed
qed

lemma run_from_arm_cases [case_names arm_failed start_failed land_failed landing landed]:
  obtains
    "arm_result w \<noteq> Action_SUCCESS"
    "run_from_arm fuel w tr = Exits EXIT_FAILURE (tr @ [Call_arm, arm_failed_msg w])"
  | "arm_result w = Action_SUCCESS" "start_result w \<noteq> Offboard_SUCCESS"
    "run_from_arm fuel w tr = Exits EXIT_FAILURE (tr @ Call_arm # priming @ [start_failed_msg w])"
  | "arm_result w = Action_SUCCESS" "start_result w = Offboard_SUCCESS"
    "land_result w \<noteq> Action_SUCCESS"
    "run_from_arm fuel w tr = Exits EXIT_FAILURE
       (tr @ Call_arm # priming @ offboard_script w @ [Call_land, land_failed_msg w])"
  | "arm_result w = Action_SUCCESS" "start_result w = Offboard_SUCCESS"
    "land_result w = Action_SUCCESS"
    "run_from_arm fuel w tr = Spins
       (tr @ Call_arm # priming @ offboard_script w @ Call_land # landing_wait fuel)"
  | n where "arm_result w = Action_SUCCESS" "start_result w = Offboard_SUCCESS"
    "land_result w = Action_SUCCESS"
    "run_from_arm fuel w tr = Returns EXIT_SUCCESS
       (tr @ Call_arm # priming @ offboard_script w @ Call_land # landing_wait n
        @ Call_in_air # closing)"
proof (cases "arm_result w = Action_SUCCESS")
  case False
  then show ?thesis using that(1) by (simp add: run_from_arm_def)
next
  case arm: True
  show ?thesis
  proof (cases "start_result w = Offboard_SUCCESS")
    case False
    with arm show ?thesis using that(2) by (simp add: run_from_arm_def)
  next
    case start: True
    show ?thesis
    proof (cases "land_result w = Action_SUCCESS")
      case False
      with arm start show ?thesis using that(3) by (simp add: run_from_arm_def)
    next
      case land: True
      let ?tr = "tr @ Call_arm # priming @ offboard_script w @ [Call_land]"
      from wait_grounded_shape [of fuel w 0 ?tr] show ?thesis
      proof (elim disjE exE)
        fix n
        assume "wait_grounded fuel w 0 ?tr = Returns () (?tr @ landing_wait n @ [Call_in_air])"
        with arm start land have "run_from_arm fuel w tr = Returns EXIT_SUCCESS
          (tr @ Call_arm # priming @ offboard_script w @ Call_land # landing_wait n
           @ Call_in_air # closing)"
          by (simp add: run_from_arm_def)
        with arm start land show ?thesis using that(5) by blast
      next
        assume "wait_grounded fuel w 0 ?tr = Spins (?tr @ landing_wait fuel)"
        with arm start land have "run_from_arm fuel w tr = Spins
          (tr @ Call_arm # priming @ offboard_script w @ Call_land # landing_wait fuel)"
          by (simp add: run_from_arm_def)
        with arm start land show ?thesis using that(4) by blast
      qed
    qed
  qed
qed

lemma main_run_cases
  [case_names usage refused waiting arm_failed start_failed land_failed landing landed]:
  obtains
    "length argv \<noteq> 2" "main fuel argv w = Returns 1 (usage (argv ! 0) [])"
  | "length argv = 2"
    "add_any_connection w (argv ! 1) \<noteq> ConnectionResult_SUCCESS"
    "main fuel argv w = Returns 1
       [Call_add_any_connection (argv ! 1),
        Cout (ERROR_CONSOLE_TEXT @ ''Connection failed: ''
              @ connection_result_str w (add_any_connection w (argv ! 1))
              @ NORMAL_CONSOLE_TEXT @ endl)]"
  | "length argv = 2"
    "add_any_connection w (argv ! 1) = ConnectionResult_SUCCESS"
    "main fuel argv w = Spins (Call_add_any_connection (argv ! 1) # heartbeat_wait fuel)"
  | n where "arm_result w \<noteq> Action_SUCCESS"
    "main fuel argv w = Exits EXIT_FAILURE
       (boot_trace w (argv ! 1) n @ [Call_arm, arm_failed_msg w])"
  | n where "arm_result w = Action_SUCCESS" "start_result w \<noteq> Offboard_SUCCESS"
    "main fuel argv w = Exits EXIT_FAILURE
       (boot_trace w (argv ! 1) n @ Call_arm # priming @ [start_failed_msg w])"
  | n where "arm_result w = Action_SUCCESS" "start_result w = Offboard_SUCCESS"
    "land_result w \<noteq> Action_SUCCESS"
    "main fuel argv w = Exits EXIT_FAILURE
       (boot_trace w (argv ! 1) n @ Call_arm # priming @ offboard_script w
        @ [Call_land, land_failed_msg w])"
  | n where "arm_result w = Action_SUCCESS" "start_result w = Offboard_SUCCESS"
    "land_result w = Action_SUCCESS"
    "main fuel argv w = Spins
       (boot_trace w (argv ! 1) n @ Call_arm # priming @ offboard_script w
        @ Call_land # landing_wait fuel)"
  | n m where "arm_result w = Action_SUCCESS" "start_result w = Offboard_SUCCESS"
    "land_result w = Action_SUCCESS"
    "main fuel argv w = Returns EXIT_SUCCESS
       (boot_trace w (argv ! 1) n @ Call_arm # priming @ offboard_script w
        @ Call_land # landing_wait m @ Call_in_air # closing)"
proof (cases rule: main_cases [of argv fuel w])
  case usage
  then show ?thesis using that(1) by blast
next
  case refused
  then show ?thesis using that(2) by blast
next
  case waiting
  then show ?thesis using that(3) by blast
next
  case (booted n)
  show ?thesis
  proof (cases rule: run_from_arm_cases [of w fuel "boot_trace w (argv ! 1) n"])
    case arm_failed
    with booted show ?thesis using that(4) by simp
  next
    case start_failed
    with booted show ?thesis using that(5) by simp
  next
    case land_failed
    with booted show ?thesis using that(6) by simp
  next
    case landing
    with booted show ?thesis using that(7) by simp
  next
    case (landed m)
    with booted show ?thesis using that(8) by simp
  qed
qed

lemmas msg_defs = arm_failed_msg_def start_failed_msg_def land_failed_msg_def
  priming_def closing_def usage_def cout_def

subsection \<open>Failed commands\<close>

lemma arm_failure_exits:
  assumes "Call_arm \<in> set (trace_of (main fuel argv w))" "arm_result w \<noteq> Action_SUCCESS"
  shows "\<exists>pre. main fuel argv w = Exits EXIT_FAILURE (pre @ [Call_arm, arm_failed_msg w])
           \<and> list_all (\<lambda>e. call_rank e < 1) pre"
proof (cases rule: main_run_cases [of argv fuel w])
  case (arm_failed n)
  have "list_all (\<lambda>e. call_rank e < 1) (boot_trace w (argv ! 1) n)"
    by (rule list_all_weaken [OF boot_trace_rank]) simp
  with arm_failed show ?thesis by blast
qed (use assms in \<open>auto simp: msg_defs dest: rankD\<close>)

lemma start_failure_exits:
  assumes "Call_start \<in> set (trace_of (main fuel argv w))" "start_result w \<noteq> Offboard_SUCCESS"
  shows "\<exists>pre. main fuel argv w = Exits EXIT_FAILURE (pre @ [Call_start, start_failed_msg w])
           \<and> list_all (\<lambda>e. call_rank e < 3) pre"
proof (cases rule: main_run_cases [of argv fuel w])
  case (start_failed n)
  let ?pre = "boot_trace w (argv ! 1) n @ [Call_arm, Cout (''Armed'' @ endl),
     Call_set_velocity_ned \<lparr>north = 0, east = 0, down = 0, yaw = 0\<rparr>]"
  have "list_all (\<lambda>e. call_rank e < 3) (boot_trace w (argv ! 1) n)"
    by (rule list_all_weaken [OF boot_trace_rank]) simp
  then have "list_all (\<lambda>e. call_rank e < 3) ?pre" by simp
  moreover from start_failed have "main fuel argv w =
      Exits EXIT_FAILURE (?pre @ [Call_start, start_failed_msg w])"
    by (simp add: priming_def)
  ultimately show ?thesis by blast
qed (use assms in \<open>auto simp: msg_defs dest: rankD\<close>)

lemma land_failure_exits:
  assumes "Call_land \<in> set (trace_of (main fuel argv w))" "land_result w \<noteq> Action_SUCCESS"
  shows "\<exists>pre. main fuel argv w = Exits EXIT_FAILURE (pre @ [Call_land, land_failed_msg w])
           \<and> list_all (\<lambda>e. call_rank e < 5) pre"
proof (cases rule: main_run_cases [of argv fuel w])
  case (land_failed n)
  let ?pre = "boot_trace w (argv ! 1) n @ Call_arm # priming @ offboard_script w"
  have "list_all (\<lambda>e. call_rank e < 5) (boot_trace w (argv ! 1) n)"
    by (rule list_all_weaken [OF boot_trace_rank]) simp
  moreover have "list_all (\<lambda>e. call_rank e < 5) (offboard_script w)"
    by (rule list_all_weaken [OF offboard_script_rank]) auto
  ultimately have "list_all (\<lambda>e. call_rank e < 5) ?pre" by (simp add: priming_def)
  moreover from land_failed have "main fuel argv w =
      Exits EXIT_FAILURE (?pre @ [Call_land, land_failed_msg w])"
    by simp
  ultimately show ?thesis by blast
qed (use assms in \<open>auto simp: msg_defs dest: rankD\<close>)

subsection \<open>The offboard phase inside a run\<close>

lemma nth_unique_middle:
  assumes "x \<notin> set pre" "x \<notin> set post" "y \<noteq> x"
    and "j < length (pre @ [y, x] @ post)" "(pre @ [y, x] @ post) ! j = x"
  shows "j = Suc (length pre)"
proof (rule ccontr)
  assume neq: "j \<noteq> Suc (length pre)"
  consider "j < length pre" | "j = length pre" | "Suc (length pre) < j"
    using neq by linarith
  then show False
  proof cases
    case 1
    then have "(pre @ [y, x] @ post) ! j = pre ! j" by (simp add: nth_append)
    with 1 assms(1,5) show False by (metis nth_mem)
  next
    case 2
    then have "(pre @ [y, x] @ post) ! j = y" by (simp add: nth_append)
    with assms(3,5) show False by simp
  next
    case 3
    then obtain d where d: "j = length pre + 2 + d"
      by (metis add_2_eq_Suc' less_iff_Suc_add add.commute add_Suc_right add.assoc)
    with assms(4) have dlt: "d < length post" by simp
    from d have "(pre @ [y, x] @ post) ! j = post ! d" by (simp add: nth_append)
    with dlt assms(2,5) show False by (metis nth_mem)
  qed
qed

lemma main_offboard_shape:
  assumes "Call_start \<in> set (trace_of (main fuel argv w))"
  shows "\<exists>pre post. trace_of (main fuel argv w) =
            pre @ [Call_arm, Cout (''Armed'' @ endl),
                   Call_set_velocity_ned \<lparr>north = 0, east = 0, down = 0, yaw = 0\<rparr>,
                   Call_start] @ post
          \<and> list_all (\<lambda>e. call_rank e = 0) pre
          \<and> list_all (\<lambda>e. call_rank e = 0 \<or> 4 \<le> call_rank e) post"
proof -
  have script: "list_all (\<lambda>e. call_rank e = 0 \<or> 4 \<le> call_rank e) (offboard_script w)"
    by (rule list_all_weaken [OF offboard_script_rank]) auto
  have polls: "list_all (\<lambda>e. call_rank e = 0 \<or> 4 \<le> call_rank e) (landing_wait k)" for k
    by (rule list_all_weaken [OF landing_wait_rank]) auto
  have shape: "\<exists>pre post. boot_trace w (argv ! 1) n @ Call_arm # priming @ rest =
            pre @ [Call_arm, Cout (''Armed'' @ endl),
                   Call_set_velocity_ned \<lparr>north = 0, east = 0, down = 0, yaw = 0\<rparr>,
                   Call_start] @ post
          \<and> list_all (\<lambda>e. call_rank e = 0) pre
          \<and> list_all (\<lambda>e. call_rank e = 0 \<or> 4 \<le> call_rank e) post"
    if "list_all (\<lambda>e. call_rank e = 0 \<or> 4 \<le> call_rank e) rest" for n rest
  proof (intro exI conjI)
    show "boot_trace w (argv ! 1) n @ Call_arm # priming @ rest =
        boot_trace w (argv ! 1) n @ [Call_arm, Cout (''Armed'' @ endl),
                   Call_set_velocity_ned \<lparr>north = 0, east = 0, down = 0, yaw = 0\<rparr>,
                   Call_start] @ rest"
      by (simp add: priming_def)
    show "list_all (\<lambda>e. call_rank e = 0) (boot_trace w (argv ! 1) n)"
      by (rule boot_trace_rank)
    show "list_all (\<lambda>e. call_rank e = 0 \<or> 4 \<le> call_rank e) rest"
      by (rule that)
  qed
  show ?thesis
  proof (cases rule: main_run_cases [of argv fuel w])
    case (start_failed n)
    have "list_all (\<lambda>e. call_rank e = 0 \<or> 4 \<le> call_rank e) [start_failed_msg w]"
      by (simp add: start_failed_msg_def)
    from shape [OF this, of n] start_failed(3) show ?thesis
      by simp
  next
    case (land_failed n)
    have "list_all (\<lambda>e. call_rank e = 0 \<or> 4 \<le> call_rank e)
        (offboard_script w @ [Call_land, land_failed_msg w])"
      using script by (simp add: land_failed_msg_def)
    from shape [OF this, of n] land_failed(4) show ?thesis
      by simp
  next
    case (landing n)
    have "list_all (\<lambda>e. call_rank e = 0 \<or> 4 \<le> call_rank e)
        (offboard_script w @ Call_land # landing_wait fuel)"
      using script polls by simp
    from shape [OF this, of n] landing(4) show ?thesis
      by simp
  next
    case (landed n m)
    have "list_all (\<lambda>e. call_rank e = 0 \<or> 4 \<le> call_rank e)
        (offboard_script w @ Call_land # landing_wait m @ Call_in_air # closing)"
      using script polls by (simp add: closing_def)
    from shape [OF this, of n] landed(4) show ?thesis
      by simp
  qed (use assms in \<open>auto simp: msg_defs dest: rankD\<close>)
qed

lemma rank_notin: "list_all P tr \<Longrightarrow> \<not> P e \<Longrightarrow> e \<notin> set tr"
  by (auto simp: list_all_iff)

subsection \<open>Runs that land\<close>

lemma wait_grounded_lands:
  "k' < fuel \<Longrightarrow> \<not> in_air w (k + k')
   \<Longrightarrow> \<exists>n. wait_grounded fuel w k tr = Returns () (tr @ landing_wait n @ [Call_in_air])"
proof (induction fuel arbitrary: k k' tr)
  case 0
  then show ?case by simp
next
  case (Suc fuel)
  show ?case
  proof (cases "in_air w k")
    case False
    then have "wait_grounded (Suc fuel) w k tr = Returns () (tr @ landing_wait 0 @ [Call_in_air])"
      by (simp add: landing_wait_def stmt_defs)
    then show ?thesis by blast
  next
    case True
    with Suc.prems obtain j where j: "k' = Suc j" by (cases k') auto
    with Suc.prems have "j < fuel" "\<not> in_air w (Suc k + j)" by simp_all
    from Suc.IH [OF this, of "tr @ landing_wait 1"]
    obtain n where "wait_grounded fuel w (Suc k) (tr @ landing_wait 1)
      = Returns () ((tr @ landing_wait 1) @ landing_wait n @ [Call_in_air])" by blast
    with True have "wait_grounded (Suc fuel) w k tr
      = Returns () (tr @ landing_wait (Suc n) @ [Call_in_air])"
      by (simp add: landing_wait_def stmt_defs)
    then show ?thesis by blast
  qed
qed

lemma wait_heartbeat_ignores_disarm:
  "wait_heartbeat fuel (w\<lparr>disarm_result := r\<rparr>) k tr = wait_heartbeat fuel w k tr"
  by (induction fuel arbitrary: k tr) simp_all

lemma wait_grounded_ignores_disarm:
  "wait_grounded fuel (w\<lparr>disarm_result := r\<rparr>) k tr = wait_grounded fuel w k tr"
  by (induction fuel arbitrary: k tr) simp_all

lemma ramp_step_ignores_disarm:
  "ramp_step (w\<lparr>disarm_result := r\<rparr>) m h steps i = ramp_step w m h steps i"
  by (simp add: ramp_step_def ramp_down_def ramp_level_def)

lemma offboard_script_ignores_disarm:
  "offboard_script (w\<lparr>disarm_result := r\<rparr>) = offboard_script w"
  unfolding offboard_script_def ramp_step_ignores_disarm by simp

lemma msgs_ignore_disarm:
  "arm_failed_msg (w\<lparr>disarm_result := r\<rparr>) = arm_failed_msg w"
  "start_failed_msg (w\<lparr>disarm_result := r\<rparr>) = start_failed_msg w"
  "land_failed_msg (w\<lparr>disarm_result := r\<rparr>) = land_failed_msg w"
  by (simp_all add: arm_failed_msg_def start_failed_msg_def land_failed_msg_def)

lemma run_from_arm_ignores_disarm:
  "run_from_arm fuel (w\<lparr>disarm_result := r\<rparr>) tr = run_from_arm fuel w tr"
  by (simp add: run_from_arm_def wait_grounded_ignores_disarm offboard_script_ignores_disarm
      msgs_ignore_disarm)

lemma main_ignores_disarm:
  "main fuel argv (w\<lparr>disarm_result := r\<rparr>) = main fuel argv w"
  by (simp add: main_closed wait_heartbeat_ignores_disarm run_from_arm_ignores_disarm
      gyro_events_def)

lemma main_lands:
  assumes "length argv = 2"
    and "add_any_connection w (argv ! 1) = ConnectionResult_SUCCESS"
    and "\<exists>k<fuel. is_connected w k"
    and "arm_result w = Action_SUCCESS"
    and "start_result w = Offboard_SUCCESS"
    and "land_result w = Action_SUCCESS"
    and "\<exists>k<fuel. \<not> in_air w k"
  shows "\<exists>n m. main fuel argv w = Returns EXIT_SUCCESS
       (boot_trace w (argv ! 1) n @ Call_arm # priming @ offboard_script w
        @ Call_land # landing_wait m @ Call_in_air # closing)"
proof -
  from assms(3) obtain k where "k < fuel" "is_connected w (0 + k)" by auto
  from wait_heartbeat_returns [OF this, of "[Call_add_any_connection (argv ! 1)]"]
  obtain n where hb: "wait_heartbeat fuel w 0 [Call_add_any_connection (argv ! 1)] =
      Returns () ([Call_add_any_connection (argv ! 1)] @ heartbeat_wait n @ [Call_is_connected])"
    by blast
  from assms(7) obtain k' where "k' < fuel" "\<not> in_air w (0 + k')" by auto
  from wait_grounded_lands [OF this,
      of "boot_trace w (argv ! 1) n @ Call_arm # priming @ offboard_script w @ [Call_land]"]
  obtain m where "wait_grounded fuel w 0
        (boot_trace w (argv ! 1) n @ Call_arm # priming @ offboard_script w @ [Call_land]) =
      Returns ()
        ((boot_trace w (argv ! 1) n @ Call_arm # priming @ offboard_script w @ [Call_land])
         @ landing_wait m @ [Call_in_air])"
    by blast
  with hb assms(1,2,4,5,6) have "main fuel argv w = Returns EXIT_SUCCESS
       (boot_trace w (argv ! 1) n @ Call_arm # priming @ offboard_script w
        @ Call_land # landing_wait m @ Call_in_air # closing)"
    by (simp add: main_closed run_from_arm_def boot_trace_def)
  then show ?thesis by blast
qed

subsection \<open>Concrete runs\<close>

text \<open>The runs of the program on the concrete inputs, evaluated.\<close>

lemma arm_refused_run:
  "main 2 nominal_args arm_refusing_world =
     Exits 1
       [Call_add_any_connection ''udp://:14540'',
        Call_is_connected,
        Cout (''Wait for system to connect via heartbeat'' @ endl),
        Sleep_ms 1000,
        Call_is_connected,
        Sleep_ms 1000,
        Call_health,
        Cout (''Gyro is calibrated'' @ endl),
        Sleep_ms 1000,
        Call_arm,
        Cerr (ERROR_CONSOLE_TEXT @ ''Arming failed'' @ ''Action result''
              @ NORMAL_CONSOLE_TEXT @ endl)]"
  by code_simp

lemma start_refused_run:
  "main 2 nominal_args start_refusing_world =
     Exits 1
       [Call_add_any_connection ''udp://:14540'',
        Call_is_connected,
        Cout (''Wait for system to connect via heartbeat'' @ endl),
        Sleep_ms 1000,
        Call_is_connected,
        Sleep_ms 1000,
        Call_health,
        Cout (''Gyro is calibrated'' @ endl),
        Sleep_ms 1000,
        Call_arm,
        Cout (''Armed'' @ endl),
        Call_set_velocity_ned \<lparr>north = 0, east = 0, down = 0, yaw = 0\<rparr>,
        Call_start,
        Cerr (ERROR_CONSOLE_TEXT @ ''Offboard start failed'' @ ''Offboard result''
              @ NORMAL_CONSOLE_TEXT @ endl)]"
  by code_simp

lemma land_refused_run:
  "main 2 nominal_args land_refusing_world =
     Exits 1
       ([Call_add_any_connection ''udp://:14540'',
        Call_is_connected,
        Cout (''Wait for system to connect via heartbeat'' @ endl),
        Sleep_ms 1000,
        Call_is_connected,
        Sleep_ms 1000,
        Call_health,
        Cout (''Gyro is calibrated'' @ endl),
        Sleep_ms 1000,
        Call_arm,
        Cout (''Armed'' @ endl),
        Call_set_velocity_ned \<lparr>north = 0, east = 0, down = 0, yaw = 0\<rparr>,
        Call_start,
        Cout (''[NED] Offboard started'' @ endl),
        Cout (''[NED] Going to 0, 0, -0.0'' @ endl),
        Call_set_position_ned \<lparr>north = 0, east = 0, down = 0, yaw = 0\<rparr>,
        Sleep_ms 1000,
        Cout (''[NED] Going to 0, 0, -0.75'' @ endl),
        Call_set_position_ned \<lparr>north = 0, east = 0, down = - 0.75, yaw = 0\<rparr>,
        Sleep_ms 4000,
        Cout (''[NED] Going to 0.2, 0, -0.75'' @ endl),
        Call_set_position_ned
          \<lparr>north = 13421773 / 67108864, east = 0, down = - 0.75, yaw = 0\<rparr>,
        Sleep_ms 2000,
        Cout (''[NED] Going to 0, 0, -0.75'' @ endl),
        Call_set_position_ned \<lparr>north = 0, east = 0, down = - 0.75, yaw = 0\<rparr>,
        Sleep_ms 2000,
        Call_set_position_ned
          \<lparr>north = 0, east = 0, down = - (5033165 / 8388608), yaw = 0\<rparr>,
        Cout (''[NED] float'' @ endl),
        Sleep_ms 400,
        Call_set_position_ned
          \<lparr>north = 0, east = 0, down = - (15099495 / 33554432), yaw = 0\<rparr>,
        Cout (''[NED] float'' @ endl),
        Sleep_ms 400,
        Call_set_position_ned
          \<lparr>north = 0, east = 0, down = - (10066329 / 33554432), yaw = 0\<rparr>,
        Cout (''[NED] float'' @ endl),
        Sleep_ms 400,
        Call_set_position_ned
          \<lparr>north = 0, east = 0, down = - (1258291 / 8388608), yaw = 0\<rparr>,
        Cout (''[NED] float'' @ endl),
        Sleep_ms 400,
        Call_set_position_ned
          \<lparr>north = 0, east = 0, down = 1 / 33554432, yaw = 0\<rparr>,
        Cout (''[NED] float'' @ endl),
        Sleep_ms 400,
        Cout (''[NED] Going to 0, 0, 0'' @ endl),
        Call_set_position_ned \<lparr>north = 0, east = 0, down = 0, yaw = 0\<rparr>,
        Call_land,
        Cerr (ERROR_CONSOLE_TEXT @ ''Landing failed'' @ ''Action result''
              @ NORMAL_CONSOLE_TEXT @ endl)])"
  by code_simp

lemma nominal_run:
  "main 3 nominal_args nominal_world =
     Returns 0
       [Call_add_any_connection ''udp://:14540'',
        Call_is_connected,
        Cout (''Wait for system to connect via heartbeat'' @ endl),
        Sleep_ms 1000,
        Call_is_connected,
        Sleep_ms 1000,
        Call_health,
        Cout (''Gyro is calibrated'' @ endl),
        Sleep_ms 1000,
        Call_arm,
        Cout (''Armed'' @ endl),
        Call_set_velocity_ned \<lparr>north = 0, east = 0, down = 0, yaw = 0\<rparr>,
        Call_start,
        Cout (''[NED] Offboard started'' @ endl),
        Cout (''[NED] Going to 0, 0, -0.0'' @ endl),
        Call_set_position_ned \<lparr>north = 0, east = 0, down = 0, yaw = 0\<rparr>,
        Sleep_ms 1000,
        Cout (''[NED] Going to 0, 0, -0.75'' @ endl),
        Call_set_position_ned \<lparr>north = 0, east = 0, down = - 0.75, yaw = 0\<rparr>,
        Sleep_ms 4000,
        Cout (''[NED] Going to 0.2, 0, -0.75'' @ endl),
        Call_set_position_ned
          \<lparr>north = 13421773 / 67108864, east = 0, down = - 0.75, yaw = 0\<rparr>,
        Sleep_ms 2000,
        Cout (''[NED] Going to 0, 0, -0.75'' @ endl),
        Call_set_position_ned \<lparr>north = 0, east = 0, down = - 0.75, yaw = 0\<rparr>,
        Sleep_ms 2000,
        Call_set_position_ned
          \<lparr>north = 0, east = 0, down = - (5033165 / 8388608), yaw = 0\<rparr>,
        Cout (''[NED] float'' @ endl),
        Sleep_ms 400,
        Call_set_position_ned
          \<lparr>north = 0, east = 0, down = - (15099495 / 33554432), yaw = 0\<rparr>,
        Cout (''[NED] float'' @ endl),
        Sleep_ms 400,
        Call_set_position_ned
          \<lparr>north = 0, east = 0, down = - (10066329 / 33554432), yaw = 0\<rparr>,
        Cout (''[NED] float'' @ endl),
        Sleep_ms 400,
        Call_set_position_ned
          \<lparr>north = 0, east = 0, down = - (1258291 / 8388608), yaw = 0\<rparr>,
        Cout (''[NED] float'' @ endl),
        Sleep_ms 400,
        Call_set_position_ned
          \<lparr>north = 0, east = 0, down = 1 / 33554432, yaw = 0\<rparr>,
        Cout (''[NED] float'' @ endl),
        Sleep_ms 400,
        Cout (''[NED] Going to 0, 0, 0'' @ endl),
        Call_set_position_ned \<lparr>north = 0, east = 0, down = 0, yaw = 0\<rparr>,
        Call_land,
        Call_in_air,
        Cout (''Vehicle is landing...'' @ endl),
        Sleep_ms 1000,
        Call_in_air,
        Cout (''Vehicle is landing...'' @ endl),
        Sleep_ms 1000,
        Call_in_air,
        Cout (''Landed!'' @ endl),
        Call_disarm,
        Sleep_ms 3000,
        Cout (''Finished...'' @ endl)]"
  by code_simp

section \<open>Fail-fast on a failed command\<close>

text \<open>
  Claim C1. Whenever \<^verbatim>\<open>arm()\<close>, the offboard \<^verbatim>\<open>start()\<close> or \<^verbatim>\<open>land()\<close> is called and
  answers anything but success, the process exits with \<^verbatim>\<open>EXIT_FAILURE\<close>, which is not
  zero. The trace of the run then ends with the failed call followed by one line on the
  error stream, made of the message of the operation and the result string; every event
  before the failed call belongs to an earlier phase. In particular a failed \<^verbatim>\<open>arm()\<close>
  is never followed by \<^verbatim>\<open>start()\<close>, a failed \<^verbatim>\<open>start()\<close> never by \<^verbatim>\<open>land()\<close>, and
  a failed \<^verbatim>\<open>land()\<close> never by an in-air poll or by \<^verbatim>\<open>disarm()\<close>.
\<close>

theorem fail_fast_abort:
  "(Call_arm \<in> set (trace_of (main fuel argv w)) \<and> arm_result w \<noteq> Action_SUCCESS \<longrightarrow>
      (\<exists>pre. main fuel argv w =
           Exits EXIT_FAILURE
             (pre @ [Call_arm,
                     Cerr (ERROR_CONSOLE_TEXT @ ''Arming failed''
                           @ action_result_str w (arm_result w)
                           @ NORMAL_CONSOLE_TEXT @ endl)])
         \<and> list_all (\<lambda>e. call_rank e < 1) pre)
      \<and> Call_start \<notin> set (trace_of (main fuel argv w)))
   \<and> (Call_start \<in> set (trace_of (main fuel argv w)) \<and> start_result w \<noteq> Offboard_SUCCESS \<longrightarrow>
      (\<exists>pre. main fuel argv w =
           Exits EXIT_FAILURE
             (pre @ [Call_start,
                     Cerr (ERROR_CONSOLE_TEXT @ ''Offboard start failed''
                           @ offboard_result_str w (start_result w)
                           @ NORMAL_CONSOLE_TEXT @ endl)])
         \<and> list_all (\<lambda>e. call_rank e < 3) pre)
      \<and> Call_land \<notin> set (trace_of (main fuel argv w)))
   \<and> (Call_land \<in> set (trace_of (main fuel argv w)) \<and> land_result w \<noteq> Action_SUCCESS \<longrightarrow>
      (\<exists>pre. main fuel argv w =
           Exits EXIT_FAILURE
             (pre @ [Call_land,
                     Cerr (ERROR_CONSOLE_TEXT @ ''Landing failed''
                           @ action_result_str w (land_result w)
                           @ NORMAL_CONSOLE_TEXT @ endl)])
         \<and> list_all (\<lambda>e. call_rank e < 5) pre)
      \<and> Call_in_air \<notin> set (trace_of (main fuel argv w))
      \<and> Call_disarm \<notin> set (trace_of (main fuel argv w)))
   \<and> EXIT_FAILURE \<noteq> 0"
proof (intro conjI impI; (elim conjE)?)
  assume "Call_arm \<in> set (trace_of (main fuel argv w))" "arm_result w \<noteq> Action_SUCCESS"
  from arm_failure_exits [OF this] obtain pre where
    pre: "main fuel argv w = Exits EXIT_FAILURE (pre @ [Call_arm, arm_failed_msg w])"
      "list_all (\<lambda>e. call_rank e < 1) pre" by blast
  then show "\<exists>pre. main fuel argv w =
           Exits EXIT_FAILURE
             (pre @ [Call_arm,
                     Cerr (ERROR_CONSOLE_TEXT @ ''Arming failed''
                           @ action_result_str w (arm_result w)
                           @ NORMAL_CONSOLE_TEXT @ endl)])
         \<and> list_all (\<lambda>e. call_rank e < 1) pre"
    unfolding arm_failed_msg_def by blast
  from notin_of_rank_below [OF pre(2), of Call_start]
  show "Call_start \<notin> set (trace_of (main fuel argv w))"
    by (simp add: pre(1) arm_failed_msg_def)
next
  assume "Call_start \<in> set (trace_of (main fuel argv w))" "start_result w \<noteq> Offboard_SUCCESS"
  from start_failure_exits [OF this] obtain pre where
    pre: "main fuel argv w = Exits EXIT_FAILURE (pre @ [Call_start, start_failed_msg w])"
      "list_all (\<lambda>e. call_rank e < 3) pre" by blast
  then show "\<exists>pre. main fuel argv w =
           Exits EXIT_FAILURE
             (pre @ [Call_start,
                     Cerr (ERROR_CONSOLE_TEXT @ ''Offboard start failed''
                           @ offboard_result_str w (start_result w)
                           @ NORMAL_CONSOLE_TEXT @ endl)])
         \<and> list_all (\<lambda>e. call_rank e < 3) pre"
    unfolding start_failed_msg_def by blast
  from notin_of_rank_below [OF pre(2), of Call_land]
  show "Call_land \<notin> set (trace_of (main fuel argv w))"
    by (simp add: pre(1) start_failed_msg_def)
next
  assume "Call_land \<in> set (trace_of (main fuel argv w))" "land_result w \<noteq> Action_SUCCESS"
  from land_failure_exits [OF this] obtain pre where
    pre: "main fuel argv w = Exits EXIT_FAILURE (pre @ [Call_land, land_failed_msg w])"
      "list_all (\<lambda>e. call_rank e < 5) pre" by blast
  then show "\<exists>pre. main fuel argv w =
           Exits EXIT_FAILURE
             (pre @ [Call_land,
                     Cerr (ERROR_CONSOLE_TEXT @ ''Landing failed''
                           @ action_result_str w (land_result w)
                           @ NORMAL_CONSOLE_TEXT @ endl)])
         \<and> list_all (\<lambda>e. call_rank e < 5) pre"
    unfolding land_failed_msg_def by blast
  from notin_of_rank_below [OF pre(2), of Call_in_air]
  show "Call_in_air \<notin> set (trace_of (main fuel argv w))"
    by (simp add: pre(1) land_failed_msg_def)
  from notin_of_rank_below [OF pre(2), of Call_disarm]
  show "Call_disarm \<notin> set (trace_of (main fuel argv w))"
    by (simp add: pre(1) land_failed_msg_def)
next
  show "EXIT_FAILURE \<noteq> 0" by (simp add: EXIT_FAILURE_def)
qed

theorem fail_fast_abort_witness:
  "(Call_arm \<in> set (trace_of (main 2 nominal_args arm_refusing_world))
    \<and> arm_result arm_refusing_world \<noteq> Action_SUCCESS
    \<and> (\<exists>pre. main 2 nominal_args arm_refusing_world =
           Exits EXIT_FAILURE
             (pre @ [Call_arm,
                     Cerr (ERROR_CONSOLE_TEXT @ ''Arming failed''
                           @ action_result_str arm_refusing_world (arm_result arm_refusing_world)
                           @ NORMAL_CONSOLE_TEXT @ endl)])
         \<and> list_all (\<lambda>e. call_rank e < 1) pre)
    \<and> Call_start \<notin> set (trace_of (main 2 nominal_args arm_refusing_world)))
   \<and> (Call_start \<in> set (trace_of (main 2 nominal_args start_refusing_world))
    \<and> start_result start_refusing_world \<noteq> Offboard_SUCCESS
    \<and> (\<exists>pre. main 2 nominal_args start_refusing_world =
           Exits EXIT_FAILURE
             (pre @ [Call_start,
                     Cerr (ERROR_CONSOLE_TEXT @ ''Offboard start failed''
                           @ offboard_result_str start_refusing_world
                               (start_result start_refusing_world)
                           @ NORMAL_CONSOLE_TEXT @ endl)])
         \<and> list_all (\<lambda>e. call_rank e < 3) pre)
    \<and> Call_land \<notin> set (trace_of (main 2 nominal_args start_refusing_world)))
   \<and> (Call_land \<in> set (trace_of (main 2 nominal_args land_refusing_world))
    \<and> land_result land_refusing_world \<noteq> Action_SUCCESS
    \<and> (\<exists>pre. main 2 nominal_args land_refusing_world =
           Exits EXIT_FAILURE
             (pre @ [Call_land,
                     Cerr (ERROR_CONSOLE_TEXT @ ''Landing failed''
                           @ action_result_str land_refusing_world (land_result land_refusing_world)
                           @ NORMAL_CONSOLE_TEXT @ endl)])
         \<and> list_all (\<lambda>e. call_rank e < 5) pre)
    \<and> Call_in_air \<notin> set (trace_of (main 2 nominal_args land_refusing_world))
    \<and> Call_disarm \<notin> set (trace_of (main 2 nominal_args land_refusing_world)))"
proof -
  have arm: "Call_arm \<in> set (trace_of (main 2 nominal_args arm_refusing_world))"
    by (simp add: arm_refused_run)
  have arm': "arm_result arm_refusing_world \<noteq> Action_SUCCESS"
    by (simp add: arm_refusing_world_def nominal_world_def)
  have start: "Call_start \<in> set (trace_of (main 2 nominal_args start_refusing_world))"
    by (simp add: start_refused_run)
  have start': "start_result start_refusing_world \<noteq> Offboard_SUCCESS"
    by (simp add: start_refusing_world_def nominal_world_def)
  have land: "Call_land \<in> set (trace_of (main 2 nominal_args land_refusing_world))"
    by (simp add: land_refused_run)
  have land': "land_result land_refusing_world \<noteq> Action_SUCCESS"
    by (simp add: land_refusing_world_def nominal_world_def)
  from arm arm' start start' land land'
    fail_fast_abort [of 2 nominal_args arm_refusing_world]
    fail_fast_abort [of 2 nominal_args start_refusing_world]
    fail_fast_abort [of 2 nominal_args land_refusing_world]
  show ?thesis by blast
qed

section \<open>The priming setpoint\<close>

text \<open>
  Claim C2. \<^verbatim>\<open>offb_ctrl_ned\<close> sends the zero velocity setpoint and calls \<^verbatim>\<open>start()\<close>
  right after it, whatever was done before, and calls \<^verbatim>\<open>start()\<close> nowhere else. In the
  trace of every run of \<^verbatim>\<open>main\<close>, finished or still polling, \<^verbatim>\<open>start()\<close> occurs at
  most once and directly after that setpoint: every position of the trace that holds
  \<^verbatim>\<open>start()\<close> has a velocity setpoint at an earlier position.
\<close>

theorem priming_before_start:
  "(\<exists>post. trace_of (offb_ctrl_ned w tr) =
        tr @ [Call_set_velocity_ned \<lparr>north = 0, east = 0, down = 0, yaw = 0\<rparr>, Call_start] @ post
      \<and> Call_start \<notin> set post)
   \<and> (Call_start \<in> set (trace_of (main fuel argv w)) \<longrightarrow>
        (\<exists>pre post. trace_of (main fuel argv w) =
            pre @ [Call_set_velocity_ned \<lparr>north = 0, east = 0, down = 0, yaw = 0\<rparr>, Call_start]
            @ post
          \<and> Call_start \<notin> set pre \<and> Call_start \<notin> set post))
   \<and> (\<forall>j < length (trace_of (main fuel argv w)).
        trace_of (main fuel argv w) ! j = Call_start \<longrightarrow>
        (\<exists>i < j. \<exists>sp. trace_of (main fuel argv w) ! i = Call_set_velocity_ned sp))"
proof (intro conjI impI allI)
  have "Call_start \<notin> set (offboard_script w)"
    by (rule rank_notin [OF offboard_script_rank]) simp
  then show "\<exists>post. trace_of (offb_ctrl_ned w tr) =
        tr @ [Call_set_velocity_ned \<lparr>north = 0, east = 0, down = 0, yaw = 0\<rparr>, Call_start] @ post
      \<and> Call_start \<notin> set post"
    by (cases "start_result w = Offboard_SUCCESS")
      (simp_all add: offb_ctrl_ned_closed start_failed_msg_def)
next
  have shape: "\<exists>pre post. trace_of (main fuel argv w) =
            pre @ [Call_set_velocity_ned \<lparr>north = 0, east = 0, down = 0, yaw = 0\<rparr>, Call_start]
            @ post
          \<and> Call_start \<notin> set pre \<and> Call_start \<notin> set post"
    if "Call_start \<in> set (trace_of (main fuel argv w))"
  proof -
    from main_offboard_shape [OF that] obtain pre post where
      tr: "trace_of (main fuel argv w) =
            pre @ [Call_arm, Cout (''Armed'' @ endl),
                   Call_set_velocity_ned \<lparr>north = 0, east = 0, down = 0, yaw = 0\<rparr>,
                   Call_start] @ post"
      and pre: "list_all (\<lambda>e. call_rank e = 0) pre"
      and post: "list_all (\<lambda>e. call_rank e = 0 \<or> 4 \<le> call_rank e) post"
      by blast
    have "Call_start \<notin> set pre" by (rule rank_notin [OF pre]) simp
    then have "Call_start \<notin> set (pre @ [Call_arm, Cout (''Armed'' @ endl)])" by simp
    moreover have "Call_start \<notin> set post" by (rule rank_notin [OF post]) simp
    moreover from tr have "trace_of (main fuel argv w) =
        (pre @ [Call_arm, Cout (''Armed'' @ endl)])
        @ [Call_set_velocity_ned \<lparr>north = 0, east = 0, down = 0, yaw = 0\<rparr>, Call_start] @ post"
      by simp
    ultimately show ?thesis by blast
  qed
  {
    assume "Call_start \<in> set (trace_of (main fuel argv w))"
    then show "\<exists>pre post. trace_of (main fuel argv w) =
            pre @ [Call_set_velocity_ned \<lparr>north = 0, east = 0, down = 0, yaw = 0\<rparr>, Call_start]
            @ post
          \<and> Call_start \<notin> set pre \<and> Call_start \<notin> set post"
      by (rule shape)
  }
  {
    fix j
    assume j: "j < length (trace_of (main fuel argv w))"
      and at: "trace_of (main fuel argv w) ! j = Call_start"
    then have "Call_start \<in> set (trace_of (main fuel argv w))"
      by (metis nth_mem)
    from shape [OF this] obtain pre post where
      tr: "trace_of (main fuel argv w) =
            pre @ [Call_set_velocity_ned \<lparr>north = 0, east = 0, down = 0, yaw = 0\<rparr>, Call_start]
            @ post"
      and notin: "Call_start \<notin> set pre" "Call_start \<notin> set post"
      by blast
    from j at have "j = Suc (length pre)"
      unfolding tr by (intro nth_unique_middle [OF notin]) simp_all
    moreover have "trace_of (main fuel argv w) ! length pre =
        Call_set_velocity_ned \<lparr>north = 0, east = 0, down = 0, yaw = 0\<rparr>"
      unfolding tr by (simp add: nth_append)
    ultimately show "\<exists>i < j. \<exists>sp. trace_of (main fuel argv w) ! i = Call_set_velocity_ned sp"
      by blast
  }
qed

theorem priming_before_start_witness:
  "Call_start \<in> set (trace_of (main 3 nominal_args nominal_world))
   \<and> (\<exists>pre post. trace_of (main 3 nominal_args nominal_world) =
            pre @ [Call_set_velocity_ned \<lparr>north = 0, east = 0, down = 0, yaw = 0\<rparr>, Call_start]
            @ post
          \<and> Call_start \<notin> set pre \<and> Call_start \<notin> set post)
   \<and> 12 < length (trace_of (main 3 nominal_args nominal_world))
   \<and> trace_of (main 3 nominal_args nominal_world) ! 12 = Call_start
   \<and> (\<exists>i < 12. \<exists>sp. trace_of (main 3 nominal_args nominal_world) ! i = Call_set_velocity_ned sp)"
proof -
  have called: "Call_start \<in> set (trace_of (main 3 nominal_args nominal_world))"
    by (simp add: nominal_run)
  have len: "12 < length (trace_of (main 3 nominal_args nominal_world))"
    by (simp add: nominal_run)
  have at: "trace_of (main 3 nominal_args nominal_world) ! 12 = Call_start"
    by (simp add: nominal_run)
  from called len at priming_before_start [of nominal_world "[]" 3 nominal_args]
  show ?thesis by blast
qed

section \<open>The descent ramp\<close>

text \<open>
  Claim C3. The interpolation loop sends exactly \<open>steps\<close> position setpoints, and the
  down component of the \<open>i\<close>-th is \<open>- height + height / steps * i + 0.15\<close>, each
  operation rounded by the arithmetic of the platform. With the values \<^verbatim>\<open>offb_ctrl_ned\<close>
  uses (height 0.75, 5 steps) the down components are \<open>-0.6, -0.45, -0.3, -0.15, 0\<close> in
  exact arithmetic, and the position setpoints of the whole offboard phase are the four
  waypoints, these five, and the final zero setpoint. With binary32 arithmetic the loop
  sends the values of \<open>ramp_down_binary32\<close>, each within \<open>10\<^sup>-\<^sup>7\<close> of the exact ones.
\<close>

theorem descent_ramp_setpoints:
  "position_setpoints (ramp_loop (w\<lparr>float_round := \<lambda>x. x\<rparr>) m height steps 0 tr) =
     position_setpoints tr
     @ map (\<lambda>i. \<lparr>north = 0, east = 0,
                  down = - height + height / of_nat steps * of_nat i + 0.15,
                  yaw = 0\<rparr>) [0..<steps]
   \<and> length (position_setpoints (ramp_loop w m height steps 0 [])) = steps
   \<and> map down (position_setpoints (ramp_loop (w\<lparr>float_round := \<lambda>x. x\<rparr>) m 0.75 5 0 []))
       = [- 0.6, - 0.45, - 0.3, - 0.15, 0]
   \<and> position_setpoints
        (trace_of (offb_ctrl_ned
                     (w\<lparr>float_round := \<lambda>x. x, start_result := Offboard_SUCCESS\<rparr>) [])) =
       [\<lparr>north = 0, east = 0, down = 0, yaw = 0\<rparr>,
        \<lparr>north = 0, east = 0, down = - 0.75, yaw = 0\<rparr>,
        \<lparr>north = 0.2, east = 0, down = - 0.75, yaw = 0\<rparr>,
        \<lparr>north = 0, east = 0, down = - 0.75, yaw = 0\<rparr>]
       @ map (\<lambda>i. \<lparr>north = 0, east = 0,
                    down = - 0.75 + 0.75 / of_nat 5 * of_nat i + 0.15,
                    yaw = 0\<rparr>) [0..<5]
       @ [\<lparr>north = 0, east = 0, down = 0, yaw = 0\<rparr>]
   \<and> list_all2 (\<lambda>x y. \<bar>x - y\<bar> < 1 / 10 ^ 7)
       (map (ramp_down_binary32 (binary32 0.75) 5) [0..<5])
       [- 0.6, - 0.45, - 0.3, - 0.15, 0]
   \<and> position_setpoints (ramp_loop w m height steps 0 tr) =
       position_setpoints tr
       @ map (\<lambda>i. \<lparr>north = 0, east = 0,
                    down = float_round w
                             (float_round w
                                (- height
                                 + float_round w
                                     (float_round w (height / float_round w (of_nat steps))
                                      * float_round w (of_nat i)))
                              + float_round w 0.15),
                    yaw = 0\<rparr>) [0..<steps]
   \<and> map down (position_setpoints (ramp_loop (w\<lparr>float_round := binary32\<rparr>) m 0.75 5 0 []))
       = map (ramp_down_binary32 (binary32 0.75) 5) [0..<5]
   \<and> list_all2 (\<lambda>x y. \<bar>x - y\<bar> < 1 / 10 ^ 7)
       (map down (position_setpoints (ramp_loop (w\<lparr>float_round := binary32\<rparr>) m 0.75 5 0 [])))
       [- 0.6, - 0.45, - 0.3, - 0.15, 0]
   \<and> position_setpoints
        (trace_of (offb_ctrl_ned
                     (w\<lparr>float_round := binary32, start_result := Offboard_SUCCESS\<rparr>) [])) =
       [\<lparr>north = 0, east = 0, down = 0, yaw = 0\<rparr>,
        \<lparr>north = 0, east = 0, down = - 0.75, yaw = 0\<rparr>,
        \<lparr>north = 13421773 / 67108864, east = 0, down = - 0.75, yaw = 0\<rparr>,
        \<lparr>north = 0, east = 0, down = - 0.75, yaw = 0\<rparr>]
       @ map (\<lambda>i. \<lparr>north = 0, east = 0,
                    down = ramp_down_binary32 (binary32 0.75) 5 i,
                    yaw = 0\<rparr>) [0..<5]
       @ [\<lparr>north = 0, east = 0, down = 0, yaw = 0\<rparr>]"
proof (intro conjI)
  show "position_setpoints (ramp_loop (w\<lparr>float_round := \<lambda>x. x\<rparr>) m height steps 0 tr) =
     position_setpoints tr
     @ map (\<lambda>i. \<lparr>north = 0, east = 0,
                  down = - height + height / of_nat steps * of_nat i + 0.15,
                  yaw = 0\<rparr>) [0..<steps]"
    unfolding position_setpoints_ramp_loop ramp_down_at_exact ..
  show "length (position_setpoints (ramp_loop w m height steps 0 [])) = steps"
    by (simp add: position_setpoints_ramp_loop)
  show "map down (position_setpoints (ramp_loop (w\<lparr>float_round := \<lambda>x. x\<rparr>) m 0.75 5 0 []))
       = [- 0.6, - 0.45, - 0.3, - 0.15, 0]"
    by (rule ramp_exact_downs)
  show "position_setpoints
        (trace_of (offb_ctrl_ned
                     (w\<lparr>float_round := \<lambda>x. x, start_result := Offboard_SUCCESS\<rparr>) [])) =
       [\<lparr>north = 0, east = 0, down = 0, yaw = 0\<rparr>,
        \<lparr>north = 0, east = 0, down = - 0.75, yaw = 0\<rparr>,
        \<lparr>north = 0.2, east = 0, down = - 0.75, yaw = 0\<rparr>,
        \<lparr>north = 0, east = 0, down = - 0.75, yaw = 0\<rparr>]
       @ map (\<lambda>i. \<lparr>north = 0, east = 0,
                    down = - 0.75 + 0.75 / of_nat 5 * of_nat i + 0.15,
                    yaw = 0\<rparr>) [0..<5]
       @ [\<lparr>north = 0, east = 0, down = 0, yaw = 0\<rparr>]"
    unfolding offboard_positions_exact position_setpoints_ramp_loop ramp_down_at_exact
    by simp
  show "list_all2 (\<lambda>x y. \<bar>x - y\<bar> < 1 / 10 ^ 7)
       (map (ramp_down_binary32 (binary32 0.75) 5) [0..<5])
       [- 0.6, - 0.45, - 0.3, - 0.15, 0]"
    unfolding ramp_down_binary32_values by simp
  show "position_setpoints (ramp_loop w m height steps 0 tr) =
       position_setpoints tr
       @ map (\<lambda>i. \<lparr>north = 0, east = 0,
                    down = float_round w
                             (float_round w
                                (- height
                                 + float_round w
                                     (float_round w (height / float_round w (of_nat steps))
                                      * float_round w (of_nat i)))
                              + float_round w 0.15),
                    yaw = 0\<rparr>) [0..<steps]"
    unfolding position_setpoints_ramp_loop ramp_down_def ramp_level_def ..
  show "map down (position_setpoints (ramp_loop (w\<lparr>float_round := binary32\<rparr>) m 0.75 5 0 []))
       = map (ramp_down_binary32 (binary32 0.75) 5) [0..<5]"
    unfolding ramp_loop_downs_binary32 binary32_literals(1) ..
  show "list_all2 (\<lambda>x y. \<bar>x - y\<bar> < 1 / 10 ^ 7)
       (map down (position_setpoints (ramp_loop (w\<lparr>float_round := binary32\<rparr>) m 0.75 5 0 [])))
       [- 0.6, - 0.45, - 0.3, - 0.15, 0]"
    unfolding ramp_binary32_downs by simp
  show "position_setpoints
        (trace_of (offb_ctrl_ned
                     (w\<lparr>float_round := binary32, start_result := Offboard_SUCCESS\<rparr>) [])) =
       [\<lparr>north = 0, east = 0, down = 0, yaw = 0\<rparr>,
        \<lparr>north = 0, east = 0, down = - 0.75, yaw = 0\<rparr>,
        \<lparr>north = 13421773 / 67108864, east = 0, down = - 0.75, yaw = 0\<rparr>,
        \<lparr>north = 0, east = 0, down = - 0.75, yaw = 0\<rparr>]
       @ map (\<lambda>i. \<lparr>north = 0, east = 0,
                    down = ramp_down_binary32 (binary32 0.75) 5 i,
                    yaw = 0\<rparr>) [0..<5]
       @ [\<lparr>north = 0, east = 0, down = 0, yaw = 0\<rparr>]"
    unfolding offboard_positions_binary32 position_setpoints_ramp_loop ramp_down_at_binary32
      binary32_literals(1)
    by simp
qed

text \<open>
  Claim C4, as stated, fails: not every setpoint of the ramp has a down component below
  zero. With binary32 arithmetic the last one (\<open>i = 4\<close>) is \<open>2\<^sup>-\<^sup>2\<^sup>5\<close>; in exact
  arithmetic it is \<open>-0.75 + 0.15 * 4 + 0.15 = 0\<close>.
\<close>

theorem descent_ramp_reaches_zero:
  "\<not> (\<forall>sp \<in> set (position_setpoints (ramp_loop nominal_world ''NED'' 0.75 5 0 [])). down sp < 0)
   \<and> \<not> (\<forall>x \<in> set (map (ramp_down_binary32 (binary32 0.75) 5) [0..<5]). x < 0)
   \<and> \<not> (\<forall>sp \<in> set (position_setpoints
                        (ramp_loop (nominal_world\<lparr>float_round := \<lambda>x. x\<rparr>) ''NED'' 0.75 5 0 [])).
          down sp < 0)"
proof (intro conjI)
  have nominal: "nominal_world = nominal_world\<lparr>float_round := binary32\<rparr>"
    by (simp add: nominal_world_def)
  have "map down (position_setpoints (ramp_loop nominal_world ''NED'' 0.75 5 0 [])) =
     [- (5033165 / 8388608), - (15099495 / 33554432), - (10066329 / 33554432),
      - (1258291 / 8388608), 1 / 33554432]"
    by (subst nominal) (rule ramp_binary32_downs)
  then have "(1 / 33554432 :: rat)
      \<in> set (map down (position_setpoints (ramp_loop nominal_world ''NED'' 0.75 5 0 [])))"
    by simp
  then show "\<not> (\<forall>sp \<in> set (position_setpoints (ramp_loop nominal_world ''NED'' 0.75 5 0 [])).
          down sp < 0)"
    by (rule not_all_below) simp
  have "(1 / 33554432 :: rat) \<in> set (map (ramp_down_binary32 (binary32 0.75) 5) [0..<5])"
    unfolding ramp_down_binary32_values by simp
  moreover have "\<not> (1 / 33554432 :: rat) < 0"
    by simp
  ultimately show "\<not> (\<forall>x \<in> set (map (ramp_down_binary32 (binary32 0.75) 5) [0..<5]). x < 0)"
    by blast
  have "(0 :: rat) \<in> set (map down (position_setpoints
      (ramp_loop (nominal_world\<lparr>float_round := \<lambda>x. x\<rparr>) ''NED'' 0.75 5 0 [])))"
    unfolding ramp_exact_downs by simp
  then show "\<not> (\<forall>sp \<in> set (position_setpoints
                        (ramp_loop (nominal_world\<lparr>float_round := \<lambda>x. x\<rparr>) ''NED'' 0.75 5 0 [])).
          down sp < 0)"
    by (rule not_all_below) simp
qed

text \<open>
  Claim C4, amended. The first four setpoints of the ramp have a down component strictly
  below zero and the fifth does not, with binary32 arithmetic and in exact arithmetic.
  With binary32 arithmetic the fifth is \<open>2\<^sup>-\<^sup>2\<^sup>5\<close>, so no setpoint of the ramp has the
  down component zero: the ramp still excludes the zero state, which the separate setpoint
  that \<^verbatim>\<open>offb_ctrl_ned\<close> sends after the loop commands. In exact arithmetic the fifth is
  within \<open>10\<^sup>-\<^sup>7\<close> of zero as well.
\<close>

theorem descent_ramp_signs:
  "map (\<lambda>sp. down sp < 0)
       (position_setpoints (ramp_loop (w\<lparr>float_round := binary32\<rparr>) m 0.75 5 0 []))
     = [True, True, True, True, False]
   \<and> map (\<lambda>sp. down sp < 0)
       (position_setpoints (ramp_loop (w\<lparr>float_round := \<lambda>x. x\<rparr>) m 0.75 5 0 []))
     = [True, True, True, True, False]
   \<and> map (\<lambda>x. x < 0) (map (ramp_down_binary32 (binary32 0.75) 5) [0..<5])
       = [True, True, True, True, False]
   \<and> 0 \<notin> set (map down
                 (position_setpoints (ramp_loop (w\<lparr>float_round := binary32\<rparr>) m 0.75 5 0 [])))
   \<and> map down (position_setpoints (ramp_loop (w\<lparr>float_round := binary32\<rparr>) m 0.75 5 0 [])) ! 4
       = 1 / 2 ^ 25
   \<and> \<bar>map down (position_setpoints (ramp_loop (w\<lparr>float_round := \<lambda>x. x\<rparr>) m 0.75 5 0 [])) ! 4\<bar>
       < 1 / 10 ^ 7
   \<and> position_setpoints
        (trace_of (offb_ctrl_ned
                     (w\<lparr>float_round := binary32, start_result := Offboard_SUCCESS\<rparr>) [])) =
       [\<lparr>north = 0, east = 0, down = 0, yaw = 0\<rparr>,
        \<lparr>north = 0, east = 0, down = - 0.75, yaw = 0\<rparr>,
        \<lparr>north = 13421773 / 67108864, east = 0, down = - 0.75, yaw = 0\<rparr>,
        \<lparr>north = 0, east = 0, down = - 0.75, yaw = 0\<rparr>]
       @ position_setpoints (ramp_loop (w\<lparr>float_round := binary32\<rparr>) ''NED'' 0.75 5 0 [])
       @ [\<lparr>north = 0, east = 0, down = 0, yaw = 0\<rparr>]"
proof (intro conjI)
  have signs: "map (\<lambda>sp. down sp < 0) sps = map (\<lambda>x. x < 0) (map down sps)"
    for sps :: "setpoint list"
    by simp
  show "map (\<lambda>sp. down sp < 0)
       (position_setpoints (ramp_loop (w\<lparr>float_round := binary32\<rparr>) m 0.75 5 0 []))
     = [True, True, True, True, False]"
    unfolding signs ramp_binary32_downs by simp
  show "map (\<lambda>sp. down sp < 0)
       (position_setpoints (ramp_loop (w\<lparr>float_round := \<lambda>x. x\<rparr>) m 0.75 5 0 []))
     = [True, True, True, True, False]"
    unfolding signs ramp_exact_downs by simp
  show "map (\<lambda>x. x < 0) (map (ramp_down_binary32 (binary32 0.75) 5) [0..<5])
       = [True, True, True, True, False]"
    unfolding ramp_down_binary32_values by simp
  show "0 \<notin> set (map down
                 (position_setpoints (ramp_loop (w\<lparr>float_round := binary32\<rparr>) m 0.75 5 0 [])))"
    unfolding ramp_binary32_downs by simp
  show "map down (position_setpoints (ramp_loop (w\<lparr>float_round := binary32\<rparr>) m 0.75 5 0 [])) ! 4
       = 1 / 2 ^ 25"
    unfolding ramp_binary32_downs by simp
  show "\<bar>map down (position_setpoints (ramp_loop (w\<lparr>float_round := \<lambda>x. x\<rparr>) m 0.75 5 0 [])) ! 4\<bar>
       < 1 / 10 ^ 7"
    unfolding ramp_exact_downs by simp
  show "position_setpoints
        (trace_of (offb_ctrl_ned
                     (w\<lparr>float_round := binary32, start_result := Offboard_SUCCESS\<rparr>) [])) =
       [\<lparr>north = 0, east = 0, down = 0, yaw = 0\<rparr>,
        \<lparr>north = 0, east = 0, down = - 0.75, yaw = 0\<rparr>,
        \<lparr>north = 13421773 / 67108864, east = 0, down = - 0.75, yaw = 0\<rparr>,
        \<lparr>north = 0, east = 0, down = - 0.75, yaw = 0\<rparr>]
       @ position_setpoints (ramp_loop (w\<lparr>float_round := binary32\<rparr>) ''NED'' 0.75 5 0 [])
       @ [\<lparr>north = 0, east = 0, down = 0, yaw = 0\<rparr>]"
    by (rule offboard_positions_binary32)
qed

text \<open>
  Claim C5. For height 0.75, 5 steps and the offset 0.15, the loop sends five setpoints
  whose down components are strictly increasing and not decreasing, with binary32
  arithmetic and in exact arithmetic; they are the fifth to ninth position setpoints of
  \<^verbatim>\<open>offb_ctrl_ned\<close>.
\<close>

theorem descent_ramp_increasing:
  "sorted_wrt (<)
     (map down (position_setpoints (ramp_loop (w\<lparr>float_round := \<lambda>x. x\<rparr>) m 0.75 5 0 [])))
   \<and> sorted_wrt (<) (map (ramp_down_binary32 (binary32 0.75) 5) [0..<5])
   \<and> map down (position_setpoints (ramp_loop (w\<lparr>float_round := binary32\<rparr>) m 0.75 5 0 []))
       = [- (5033165 / 8388608), - (15099495 / 33554432), - (10066329 / 33554432),
          - (1258291 / 8388608), 1 / 33554432]
   \<and> sorted_wrt (<)
       (map down (position_setpoints (ramp_loop (w\<lparr>float_round := binary32\<rparr>) m 0.75 5 0 [])))
   \<and> \<not> sorted_wrt (\<lambda>x y. y \<le> x)
         (map down (position_setpoints (ramp_loop (w\<lparr>float_round := binary32\<rparr>) m 0.75 5 0 [])))
   \<and> map down (position_setpoints (ramp_loop (w\<lparr>float_round := \<lambda>x. x\<rparr>) m 0.75 5 0 []))
       = [- 0.6, - 0.45, - 0.3, - 0.15, 0]
   \<and> \<not> sorted_wrt (\<lambda>x y. y \<le> x)
         (map down (position_setpoints (ramp_loop (w\<lparr>float_round := \<lambda>x. x\<rparr>) m 0.75 5 0 [])))
   \<and> length (position_setpoints (ramp_loop w m 0.75 5 0 [])) = 5
   \<and> map down
        (take 5 (drop 4 (position_setpoints
           (trace_of (offb_ctrl_ned
                        (w\<lparr>float_round := binary32, start_result := Offboard_SUCCESS\<rparr>) [])))))
       = [- (5033165 / 8388608), - (15099495 / 33554432), - (10066329 / 33554432),
          - (1258291 / 8388608), 1 / 33554432]"
proof (intro conjI)
  show "sorted_wrt (<)
     (map down (position_setpoints (ramp_loop (w\<lparr>float_round := \<lambda>x. x\<rparr>) m 0.75 5 0 [])))"
    unfolding ramp_exact_downs by simp
  show "sorted_wrt (<) (map (ramp_down_binary32 (binary32 0.75) 5) [0..<5])"
    unfolding ramp_down_binary32_values by simp
  show "map down (position_setpoints (ramp_loop (w\<lparr>float_round := binary32\<rparr>) m 0.75 5 0 []))
       = [- (5033165 / 8388608), - (15099495 / 33554432), - (10066329 / 33554432),
          - (1258291 / 8388608), 1 / 33554432]"
    by (rule ramp_binary32_downs)
  show "sorted_wrt (<)
       (map down (position_setpoints (ramp_loop (w\<lparr>float_round := binary32\<rparr>) m 0.75 5 0 [])))"
    unfolding ramp_binary32_downs by simp
  show "\<not> sorted_wrt (\<lambda>x y. y \<le> x)
         (map down (position_setpoints (ramp_loop (w\<lparr>float_round := binary32\<rparr>) m 0.75 5 0 [])))"
    unfolding ramp_binary32_downs by simp
  show "map down (position_setpoints (ramp_loop (w\<lparr>float_round := \<lambda>x. x\<rparr>) m 0.75 5 0 []))
       = [- 0.6, - 0.45, - 0.3, - 0.15, 0]"
    by (rule ramp_exact_downs)
  show "\<not> sorted_wrt (\<lambda>x y. y \<le> x)
         (map down (position_setpoints (ramp_loop (w\<lparr>float_round := \<lambda>x. x\<rparr>) m 0.75 5 0 [])))"
    unfolding ramp_exact_downs by simp
  show "length (position_setpoints (ramp_loop w m 0.75 5 0 [])) = 5"
    by (simp add: position_setpoints_ramp_loop)
  have len: "length (position_setpoints (ramp_loop (w\<lparr>float_round := binary32\<rparr>) ''NED'' 0.75 5 0 []))
      = 5"
    by (simp add: position_setpoints_ramp_loop)
  have "take 5 (drop 4 (position_setpoints
           (trace_of (offb_ctrl_ned
                        (w\<lparr>float_round := binary32, start_result := Offboard_SUCCESS\<rparr>) []))))
      = position_setpoints (ramp_loop (w\<lparr>float_round := binary32\<rparr>) ''NED'' 0.75 5 0 [])"
    unfolding offboard_positions_binary32 using len by simp
  then show "map down
        (take 5 (drop 4 (position_setpoints
           (trace_of (offb_ctrl_ned
                        (w\<lparr>float_round := binary32, start_result := Offboard_SUCCESS\<rparr>) [])))))
       = [- (5033165 / 8388608), - (15099495 / 33554432), - (10066329 / 33554432),
          - (1258291 / 8388608), 1 / 33554432]"
    by (simp only: ramp_binary32_downs)
qed

section \<open>Disarming\<close>

text \<open>
  Claim C6, as stated, fails in its last part: a failed \<^verbatim>\<open>disarm()\<close> is not logged. In
  the run below \<^verbatim>\<open>disarm()\<close> fails and the process still ends with status 0, but after
  the call the program only sleeps and prints its last line, nothing is written to the
  error stream, and the whole trace is the one of the run where \<^verbatim>\<open>disarm()\<close> succeeds.
\<close>

theorem disarm_failure_not_logged:
  "disarm_result disarm_refusing_world \<noteq> Action_SUCCESS
   \<and> exit_status (main 3 nominal_args disarm_refusing_world) = Some 0
   \<and> dropWhile (\<lambda>e. e \<noteq> Call_disarm) (trace_of (main 3 nominal_args disarm_refusing_world))
       = [Call_disarm, Sleep_ms 3000, Cout (''Finished...'' @ endl)]
   \<and> \<not> (\<exists>s. Cerr s \<in> set (trace_of (main 3 nominal_args disarm_refusing_world)))
   \<and> trace_of (main 3 nominal_args disarm_refusing_world)
       = trace_of (main 3 nominal_args nominal_world)"
proof -
  have run: "main 3 nominal_args disarm_refusing_world = main 3 nominal_args nominal_world"
    unfolding disarm_refusing_world_def by (rule main_ignores_disarm)
  have "disarm_result disarm_refusing_world \<noteq> Action_SUCCESS"
    by (simp add: disarm_refusing_world_def)
  then show ?thesis
    unfolding run by (simp add: nominal_run)
qed

text \<open>
  Claim C6, amended. When the connection, \<^verbatim>\<open>arm()\<close>, \<^verbatim>\<open>start()\<close> and \<^verbatim>\<open>land()\<close> succeed
  and both polling loops come to an end, the run ends with exit status 0, its last events
  being the call of \<^verbatim>\<open>disarm()\<close>, a sleep and the final line. The result of
  \<^verbatim>\<open>disarm()\<close> is discarded: the outcome of \<^verbatim>\<open>main\<close>, trace included, is the same for
  every result, so a failure is neither fatal nor logged.
\<close>

theorem disarm_result_discarded:
  assumes "length argv = 2"
    and "add_any_connection w (argv ! 1) = ConnectionResult_SUCCESS"
    and "\<exists>k<fuel. is_connected w k"
    and "arm_result w = Action_SUCCESS"
    and "start_result w = Offboard_SUCCESS"
    and "land_result w = Action_SUCCESS"
    and "\<exists>k<fuel. \<not> in_air w k"
  shows "exit_status (main fuel argv w) = Some EXIT_SUCCESS
    \<and> EXIT_SUCCESS = 0
    \<and> (\<exists>pre. trace_of (main fuel argv w)
          = pre @ [Call_disarm, Sleep_ms 3000, Cout (''Finished...'' @ endl)]
        \<and> Call_disarm \<notin> set pre)
    \<and> main fuel argv (w\<lparr>disarm_result := r\<rparr>) = main fuel argv w"
proof -
  from main_lands [OF assms] obtain n m where
    run: "main fuel argv w = Returns EXIT_SUCCESS
       (boot_trace w (argv ! 1) n @ Call_arm # priming @ offboard_script w
        @ Call_land # landing_wait m @ Call_in_air # closing)"
    by blast
  let ?pre = "boot_trace w (argv ! 1) n @ Call_arm # priming @ offboard_script w
        @ Call_land # landing_wait m @ [Call_in_air, Cout (''Landed!'' @ endl)]"
  have "Call_disarm \<notin> set ?pre"
    by (auto simp: priming_def dest: rankD)
  moreover have "trace_of (main fuel argv w)
      = ?pre @ [Call_disarm, Sleep_ms 3000, Cout (''Finished...'' @ endl)]"
    by (simp add: run closing_def)
  ultimately have "\<exists>pre. trace_of (main fuel argv w)
          = pre @ [Call_disarm, Sleep_ms 3000, Cout (''Finished...'' @ endl)]
        \<and> Call_disarm \<notin> set pre"
    by blast
  then show ?thesis
    by (simp add: run main_ignores_disarm EXIT_SUCCESS_def)
qed

theorem disarm_result_discarded_witness:
  "length nominal_args = 2
   \<and> add_any_connection disarm_refusing_world (nominal_args ! 1) = ConnectionResult_SUCCESS
   \<and> (\<exists>k<3. is_connected disarm_refusing_world k)
   \<and> arm_result disarm_refusing_world = Action_SUCCESS
   \<and> start_result disarm_refusing_world = Offboard_SUCCESS
   \<and> land_result disarm_refusing_world = Action_SUCCESS
   \<and> (\<exists>k<3. \<not> in_air disarm_refusing_world k)
   \<and> disarm_result disarm_refusing_world = Action_failure 1
   \<and> exit_status (main 3 nominal_args disarm_refusing_world) = Some EXIT_SUCCESS
   \<and> EXIT_SUCCESS = 0
   \<and> (\<exists>pre. trace_of (main 3 nominal_args disarm_refusing_world)
          = pre @ [Call_disarm, Sleep_ms 3000, Cout (''Finished...'' @ endl)]
        \<and> Call_disarm \<notin> set pre)
   \<and> main 3 nominal_args (disarm_refusing_world\<lparr>disarm_result := Action_SUCCESS\<rparr>)
       = main 3 nominal_args disarm_refusing_world"
proof -
  have 1: "length nominal_args = 2"
    by (simp add: nominal_args_def)
  have 2: "add_any_connection disarm_refusing_world (nominal_args ! 1) = ConnectionResult_SUCCESS"
    by (simp add: disarm_refusing_world_def nominal_world_def)
  have "is_connected disarm_refusing_world 1"
    by (simp add: disarm_refusing_world_def nominal_world_def)
  then have 3: "\<exists>k<3. is_connected disarm_refusing_world k"
    by (intro exI [of _ 1]) simp
  have 4: "arm_result disarm_refusing_world = Action_SUCCESS"
    and 5: "start_result disarm_refusing_world = Offboard_SUCCESS"
    and 6: "land_result disarm_refusing_world = Action_SUCCESS"
    and 8: "disarm_result disarm_refusing_world = Action_failure 1"
    by (simp_all add: disarm_refusing_world_def nominal_world_def)
  have "\<not> in_air disarm_refusing_world 2"
    by (simp add: disarm_refusing_world_def nominal_world_def)
  then have 7: "\<exists>k<3. \<not> in_air disarm_refusing_world k"
    by (intro exI [of _ 2]) simp
  from disarm_result_discarded [OF 1 2 3 4 5 6 7, of Action_SUCCESS] 1 2 3 4 5 6 7 8
  show ?thesis by blast
qed

section \<open>Waiting for the ground\<close>

text \<open>
  Claim C7. If \<^verbatim>\<open>in_air()\<close> answers true to the first \<open>N\<close> polls and false to the next
  one, the landing loop returns after exactly \<open>N + 1\<close> polls, each of the first \<open>N\<close>
  followed by a line on the console and a sleep of one second, provided the model follows
  more than \<open>N\<close> polls. In a run of \<^verbatim>\<open>main\<close> where \<^verbatim>\<open>land()\<close> was called and succeeded,
  these \<open>N + 1\<close> polls are all the in-air polls of the run, and \<^verbatim>\<open>disarm()\<close> follows
  the last of them. Whenever some poll would answer false, the loop returns once the
  model follows enough polls.
\<close>

theorem wait_grounded_polls:
  assumes "\<forall>k<N. in_air w k" and "\<not> in_air w N" and "N < fuel"
  shows "wait_grounded fuel w 0 tr = Returns () (tr @ landing_wait N @ [Call_in_air])
    \<and> count_list (landing_wait N @ [Call_in_air]) Call_in_air = N + 1
    \<and> (Call_land \<in> set (trace_of (main fuel argv w)) \<and> land_result w = Action_SUCCESS \<longrightarrow>
         (\<exists>pre. main fuel argv w =
              Returns EXIT_SUCCESS
                (pre @ Call_land # landing_wait N
                 @ [Call_in_air, Cout (''Landed!'' @ endl), Call_disarm, Sleep_ms 3000,
                    Cout (''Finished...'' @ endl)])
            \<and> Call_in_air \<notin> set pre)
         \<and> count_list (trace_of (main fuel argv w)) Call_in_air = N + 1)
    \<and> (\<forall>k fuel'. \<not> in_air w k \<and> k < fuel' \<longrightarrow>
         (\<exists>n. wait_grounded fuel' w 0 tr = Returns () (tr @ landing_wait n @ [Call_in_air])))"
proof (intro conjI impI allI; (elim conjE)?)
  show "\<exists>n. wait_grounded fuel' w 0 tr = Returns () (tr @ landing_wait n @ [Call_in_air])"
    if "\<not> in_air w k" "k < fuel'" for k fuel'
    using wait_grounded_lands [of k fuel' w 0 tr] that by simp
  have polls: "wait_grounded fuel w 0 tr = Returns () (tr @ landing_wait N @ [Call_in_air])" for tr
    using assms by (intro wait_grounded_returns) simp_all
  show "wait_grounded fuel w 0 tr = Returns () (tr @ landing_wait N @ [Call_in_air])"
    by (rule polls)
  have count: "count_list (landing_wait n) Call_in_air = n" for n
    by (induction n) (simp_all add: landing_wait_def)
  then show "count_list (landing_wait N @ [Call_in_air]) Call_in_air = N + 1"
    by simp
  assume land: "Call_land \<in> set (trace_of (main fuel argv w))" "land_result w = Action_SUCCESS"
  have "\<exists>n. main fuel argv w = Returns EXIT_SUCCESS
       (boot_trace w (argv ! 1) n @ Call_arm # priming @ offboard_script w
        @ Call_land # landing_wait N @ Call_in_air # closing)"
  proof (cases rule: main_cases [of argv fuel w])
    case (booted n)
    have "arm_result w = Action_SUCCESS \<and> start_result w = Offboard_SUCCESS"
      by (cases rule: run_from_arm_cases [of w fuel "boot_trace w (argv ! 1) n"])
        (use land booted in \<open>auto simp: msg_defs dest: rankD\<close>)
    with land(2) booted(3)
      polls [of "boot_trace w (argv ! 1) n @ Call_arm # priming @ offboard_script w @ [Call_land]"]
    have "main fuel argv w = Returns EXIT_SUCCESS
       (boot_trace w (argv ! 1) n @ Call_arm # priming @ offboard_script w
        @ Call_land # landing_wait N @ Call_in_air # closing)"
      by (simp add: run_from_arm_def)
    then show ?thesis by blast
  qed (use land in \<open>auto simp: msg_defs dest: rankD\<close>)
  then obtain n where run: "main fuel argv w = Returns EXIT_SUCCESS
       (boot_trace w (argv ! 1) n @ Call_arm # priming @ offboard_script w
        @ Call_land # landing_wait N @ Call_in_air # closing)"
    by blast
  let ?pre = "boot_trace w (argv ! 1) n @ Call_arm # priming @ offboard_script w"
  have notin: "Call_in_air \<notin> set ?pre"
    by (auto simp: priming_def dest: rankD)
  moreover from run have "main fuel argv w =
      Returns EXIT_SUCCESS
        (?pre @ Call_land # landing_wait N
         @ [Call_in_air, Cout (''Landed!'' @ endl), Call_disarm, Sleep_ms 3000,
            Cout (''Finished...'' @ endl)])"
    by (simp add: closing_def)
  ultimately show "\<exists>pre. main fuel argv w =
              Returns EXIT_SUCCESS
                (pre @ Call_land # landing_wait N
                 @ [Call_in_air, Cout (''Landed!'' @ endl), Call_disarm, Sleep_ms 3000,
                    Cout (''Finished...'' @ endl)])
            \<and> Call_in_air \<notin> set pre"
    by blast
  from notin have "count_list ?pre Call_in_air = 0"
    by (rule count_notin)
  then show "count_list (trace_of (main fuel argv w)) Call_in_air = N + 1"
    unfolding run by (simp add: count closing_def del: count_notin)
qed

theorem wait_grounded_polls_witness:
  "in_air nominal_world 0 \<and> in_air nominal_world 1 \<and> \<not> in_air nominal_world 2 \<and> (2::nat) < 3
   \<and> wait_grounded 3 nominal_world 0 [] = Returns () (landing_wait 2 @ [Call_in_air])
   \<and> count_list (landing_wait 2 @ [Call_in_air]) Call_in_air = 2 + 1
   \<and> Call_land \<in> set (trace_of (main 3 nominal_args nominal_world))
   \<and> land_result nominal_world = Action_SUCCESS
   \<and> (\<exists>pre. main 3 nominal_args nominal_world =
              Returns EXIT_SUCCESS
                (pre @ Call_land # landing_wait 2
                 @ [Call_in_air, Cout (''Landed!'' @ endl), Call_disarm, Sleep_ms 3000,
                    Cout (''Finished...'' @ endl)])
            \<and> Call_in_air \<notin> set pre)
   \<and> count_list (trace_of (main 3 nominal_args nominal_world)) Call_in_air = 2 + 1"
proof -
  have air: "\<forall>k<2. in_air nominal_world k"
    by (simp add: nominal_world_def)
  have ground: "\<not> in_air nominal_world 2"
    by (simp add: nominal_world_def)
  have fuel: "(2::nat) < 3"
    by simp
  have land: "Call_land \<in> set (trace_of (main 3 nominal_args nominal_world))"
    by (simp add: nominal_run)
  have ok: "land_result nominal_world = Action_SUCCESS"
    by (simp add: nominal_world_def)
  have first: "in_air nominal_world 0 \<and> in_air nominal_world 1"
    by (simp add: nominal_world_def)
  from wait_grounded_polls [OF air ground fuel, of "[]" nominal_args] first ground fuel land ok
  show ?thesis by simp
qed

section \<open>The command line\<close>

text \<open>
  Claim C8. With any number of command line arguments other than one (\<open>argc \<noteq> 2\<close>),
  \<^verbatim>\<open>main\<close> prints the usage text and returns 1; the usage text is the only event of the
  run, so no connection or gateway call is made. With exactly one argument the run starts
  by connecting to it.
\<close>

theorem usage_error:
  "(argv \<noteq> [] \<and> length argv \<noteq> 2 \<longrightarrow>
      main fuel argv w =
        Returns 1
          [Cout (NORMAL_CONSOLE_TEXT @ ''Usage : '' @ argv ! 0 @ '' <connection_url>'' @ endl
                 @ ''Connection URL format should be :'' @ endl
                 @ '' For TCP : tcp://[server_host][:server_port]'' @ endl
                 @ '' For UDP : udp://[bind_host][:bind_port]'' @ endl
                 @ '' For Serial : serial:///path/to/serial/dev[:baudrate]'' @ endl
                 @ ''For example, to connect to the simulator use URL: udp://:14540'' @ endl)]
      \<and> exit_status (main fuel argv w) = Some 1)
   \<and> (length argv = 2 \<longrightarrow>
        (\<exists>rest. trace_of (main fuel argv w) = Call_add_any_connection (argv ! 1) # rest))"
proof (intro conjI impI)
  assume "argv \<noteq> [] \<and> length argv \<noteq> 2"
  then have "main fuel argv w = Returns 1 (usage (argv ! 0) [])"
    by (simp add: main_closed)
  then show "main fuel argv w =
        Returns 1
          [Cout (NORMAL_CONSOLE_TEXT @ ''Usage : '' @ argv ! 0 @ '' <connection_url>'' @ endl
                 @ ''Connection URL format should be :'' @ endl
                 @ '' For TCP : tcp://[server_host][:server_port]'' @ endl
                 @ '' For UDP : udp://[bind_host][:bind_port]'' @ endl
                 @ '' For Serial : serial:///path/to/serial/dev[:baudrate]'' @ endl
                 @ ''For example, to connect to the simulator use URL: udp://:14540'' @ endl)]"
    by (simp add: usage_def cout_def)
  then show "exit_status (main fuel argv w) = Some 1"
    by simp
next
  assume len: "length argv = 2"
  show "\<exists>rest. trace_of (main fuel argv w) = Call_add_any_connection (argv ! 1) # rest"
    by (cases rule: main_run_cases [of argv fuel w])
      (use len in \<open>simp_all add: boot_trace_def\<close>)
qed

theorem usage_error_witness:
  "(no_args \<noteq> [] \<and> length no_args \<noteq> 2
    \<and> exit_status (main 3 no_args nominal_world) = Some 1
    \<and> (\<exists>text. trace_of (main 3 no_args nominal_world) = [Cout text]))
   \<and> (two_args \<noteq> [] \<and> length two_args \<noteq> 2
    \<and> exit_status (main 3 two_args nominal_world) = Some 1
    \<and> (\<exists>text. trace_of (main 3 two_args nominal_world) = [Cout text]))
   \<and> (length nominal_args = 2
    \<and> (\<exists>rest. trace_of (main 3 nominal_args nominal_world)
          = Call_add_any_connection (nominal_args ! 1) # rest))"
proof -
  have none: "no_args \<noteq> [] \<and> length no_args \<noteq> 2"
    by (simp add: no_args_def)
  have two: "two_args \<noteq> [] \<and> length two_args \<noteq> 2"
    by (simp add: two_args_def)
  have one: "length nominal_args = 2"
    by (simp add: nominal_args_def)
  from none usage_error [of no_args 3 nominal_world]
  have "exit_status (main 3 no_args nominal_world) = Some 1
    \<and> (\<exists>text. trace_of (main 3 no_args nominal_world) = [Cout text])"
    by simp
  moreover from two usage_error [of two_args 3 nominal_world]
  have "exit_status (main 3 two_args nominal_world) = Some 1
    \<and> (\<exists>text. trace_of (main 3 two_args nominal_world) = [Cout text])"
    by simp
  moreover from one usage_error [of nominal_args 3 nominal_world]
  have "\<exists>rest. trace_of (main 3 nominal_args nominal_world)
          = Call_add_any_connection (nominal_args ! 1) # rest"
    by blast
  ultimately show ?thesis using none two one by blast
qed

section \<open>Order of arming, priming and start\<close>

text \<open>
  Claim C9, as stated, fails: in the successful run below no setpoint is sent before
  \<^verbatim>\<open>arm()\<close>; the priming setpoint comes after it.
\<close>

theorem priming_not_before_arm:
  "exit_status (main 3 nominal_args nominal_world) = Some EXIT_SUCCESS
   \<and> \<not> (\<exists>sp. Call_set_velocity_ned sp
            \<in> set (takeWhile (\<lambda>e. e \<noteq> Call_arm) (trace_of (main 3 nominal_args nominal_world))))
   \<and> Call_set_velocity_ned \<lparr>north = 0, east = 0, down = 0, yaw = 0\<rparr>
        \<in> set (dropWhile (\<lambda>e. e \<noteq> Call_arm) (trace_of (main 3 nominal_args nominal_world)))"
  by (simp add: nominal_run EXIT_SUCCESS_def)

text \<open>
  Claim C9, amended. In every successful run \<^verbatim>\<open>arm()\<close> is called first, then the
  priming setpoint is sent, then \<^verbatim>\<open>start()\<close> is called, with only the console line
  \<^verbatim>\<open>Armed\<close> in between; no other event of the run is one of these three calls.
\<close>

theorem arm_then_priming_then_start:
  assumes "main fuel argv w = Returns EXIT_SUCCESS tr"
  shows "\<exists>pre post. tr =
            pre @ [Call_arm, Cout (''Armed'' @ endl),
                   Call_set_velocity_ned \<lparr>north = 0, east = 0, down = 0, yaw = 0\<rparr>,
                   Call_start] @ post
          \<and> list_all (\<lambda>e. call_rank e = 0) pre
          \<and> list_all (\<lambda>e. call_rank e = 0 \<or> 4 \<le> call_rank e) post"
proof -
  have "Call_start \<in> set (trace_of (main fuel argv w))"
  proof (cases rule: main_run_cases [of argv fuel w])
    case (landed n m)
    then show ?thesis by (simp add: priming_def)
  qed (use assms in \<open>simp_all add: EXIT_SUCCESS_def\<close>)
  from main_offboard_shape [OF this] assms show ?thesis by simp
qed

theorem arm_then_priming_then_start_witness:
  "main 3 nominal_args nominal_world =
     Returns EXIT_SUCCESS (trace_of (main 3 nominal_args nominal_world))
   \<and> (\<exists>pre post. trace_of (main 3 nominal_args nominal_world) =
            pre @ [Call_arm, Cout (''Armed'' @ endl),
                   Call_set_velocity_ned \<lparr>north = 0, east = 0, down = 0, yaw = 0\<rparr>,
                   Call_start] @ post
          \<and> list_all (\<lambda>e. call_rank e = 0) pre
          \<and> list_all (\<lambda>e. call_rank e = 0 \<or> 4 \<le> call_rank e) post)"
proof -
  have run: "main 3 nominal_args nominal_world =
     Returns EXIT_SUCCESS (trace_of (main 3 nominal_args nominal_world))"
    by (simp add: nominal_run EXIT_SUCCESS_def)
  from run arm_then_priming_then_start [OF run] show ?thesis by blast
qed

section \<open>The result of the offboard phase\<close>

text \<open>
  Claim C10. \<^verbatim>\<open>offb_ctrl_ned\<close> either returns true or exits the process with
  \<^verbatim>\<open>EXIT_FAILURE\<close>; it never returns false. So the branch of \<^verbatim>\<open>main\<close> that returns
  \<^verbatim>\<open>EXIT_FAILURE\<close> after the offboard phase is never taken: once \<^verbatim>\<open>arm()\<close> has been
  called, \<^verbatim>\<open>main\<close> returns only with \<^verbatim>\<open>EXIT_SUCCESS\<close>.
\<close>

theorem offb_ctrl_ned_never_false:
  "((\<exists>tr'. offb_ctrl_ned w tr = Returns True tr')
      \<or> (\<exists>tr'. offb_ctrl_ned w tr = Exits EXIT_FAILURE tr'))
   \<and> (\<forall>tr'. offb_ctrl_ned w tr \<noteq> Returns False tr')
   \<and> (\<forall>c tr'. main fuel argv w = Returns c tr' \<and> Call_arm \<in> set tr' \<longrightarrow> c = EXIT_SUCCESS)"
proof (intro conjI allI impI)
  show "(\<exists>tr'. offb_ctrl_ned w tr = Returns True tr')
      \<or> (\<exists>tr'. offb_ctrl_ned w tr = Exits EXIT_FAILURE tr')"
    by (simp add: offb_ctrl_ned_closed)
next
  fix tr'
  show "offb_ctrl_ned w tr \<noteq> Returns False tr'"
    by (simp add: offb_ctrl_ned_closed)
next
  fix c tr'
  assume a: "main fuel argv w = Returns c tr' \<and> Call_arm \<in> set tr'"
  show "c = EXIT_SUCCESS"
    by (cases rule: main_run_cases [of argv fuel w])
      (use a in \<open>auto simp: msg_defs dest: rankD\<close>)
qed

theorem offb_ctrl_ned_never_false_witness:
  "main 3 nominal_args nominal_world = Returns 0 (trace_of (main 3 nominal_args nominal_world))
   \<and> Call_arm \<in> set (trace_of (main 3 nominal_args nominal_world))
   \<and> 0 = EXIT_SUCCESS"
proof -
  have run: "main 3 nominal_args nominal_world =
      Returns 0 (trace_of (main 3 nominal_args nominal_world))"
    by (simp add: nominal_run)
  have arm: "Call_arm \<in> set (trace_of (main 3 nominal_args nominal_world))"
    by (simp add: nominal_run)
  from run arm offb_ctrl_ned_never_false [of nominal_world "[]" 3 nominal_args]
  show ?thesis by blast
qed

end
